theory Spec2Isabelle
  imports Main "HOL-Library.Word" "HOL-Library.AList"
begin

section \<open>Shared conventions\<close>

text \<open>
  The repository holds two implementations of the protocol engine: Hyperledger Fabric
  chaincode written in JavaScript (\<^verbatim>\<open>anchor-registry.js\<close>, the sidechain verifier chaincode,
  \<^verbatim>\<open>scimp-coordinator.js\<close>) and Solidity contracts for Besu (\<^verbatim>\<open>AnchorRegistry\<close>,
  \<^verbatim>\<open>SidechainVerifier\<close>, \<^verbatim>\<open>ScimpCoordinator\<close>). Both are embedded here; the constants
  of the Solidity contracts carry the prefix \<open>sol_\<close> where a chaincode function has
  the same name.

  A chaincode function receives every argument as a string. An argument that the code
  hands to \<^verbatim>\<open>JSON.parse\<close> is modelled by its three possible shapes: the empty string
  (falsy, caught by the \<^verbatim>\<open>!arg\<close> guards), a non-empty string that does not parse, and
  the parsed value. A parsed value has the shape the code reads (an array of strings, an
  array of \<^verbatim>\<open>{validator, signature}\<close> or \<^verbatim>\<open>{hash, left}\<close> objects); JSON of another
  shape is outside the model, and so are keys that name a property of
  \<^verbatim>\<open>Object.prototype\<close>. JavaScript objects used as dictionaries are maps.
\<close>

datatype 'a jsonArg = Empty | Malformed | Parsed 'a

type_synonym byte = "8 word"
type_synonym bytes32 = "256 word"
type_synonym address = "160 word"

text \<open>
  The SHA-256 digest of the crypto library and of the EVM precompile is a parameter
  \<open>sha256\<close> of every function that hashes; it maps the bytes it is fed to the digest,
  in the encoding its caller compares (hexadecimal text in the chaincode, \<^verbatim>\<open>bytes32\<close>
  in Solidity).
\<close>

section \<open>Merkle proof verification\<close>

subsection \<open>Chaincode: \<^verbatim>\<open>verifyMerkleProof\<close>\<close>

text \<open>A proof element \<^verbatim>\<open>{hash, left}\<close> as the chaincode reads it.\<close>

record 'a proofElement =
  hash :: "'a list"
  left :: bool

text \<open>
  The \<^verbatim>\<open>for (const proofElement of proof)\<close> loop with its accumulator
  \<^verbatim>\<open>computedHash\<close>; \<^verbatim>\<open>+\<close> on strings is concatenation.
\<close>

fun computeRoot :: "('a list \<Rightarrow> 'a list) \<Rightarrow> 'a list \<Rightarrow> 'a proofElement list \<Rightarrow> 'a list" where
  "computeRoot sha256 computedHash [] = computedHash"
| "computeRoot sha256 computedHash (proofElement # rest) =
     computeRoot sha256
       (if left proofElement
        then sha256 (computedHash @ hash proofElement)
        else sha256 (hash proofElement @ computedHash))
       rest"

definition verifyMerkleProof ::
  "('a list \<Rightarrow> 'a list) \<Rightarrow> 'a list \<Rightarrow> 'a proofElement list \<Rightarrow> 'a list \<Rightarrow> bool" where
  "verifyMerkleProof sha256 leaf proof root \<longleftrightarrow> computeRoot sha256 leaf proof = root"

subsection \<open>Solidity: \<^verbatim>\<open>SidechainVerifier.verifyProof\<close>\<close>

text \<open>
  The loop \<^verbatim>\<open>for (uint i = 0; i < proof.length; i++)\<close> reads \<^verbatim>\<open>proof[i]\<close> and
  \<^verbatim>\<open>lefts[i]\<close>; reading \<^verbatim>\<open>lefts\<close> past its end reverts the call, which is the
  result \<open>None\<close>. \<^verbatim>\<open>abi.encodePacked(p, computed)\<close> of two \<^verbatim>\<open>bytes32\<close> values is
  their concatenation.
\<close>

fun sol_computeRoot ::
  "('a list \<Rightarrow> 'a list) \<Rightarrow> 'a list \<Rightarrow> 'a list list \<Rightarrow> bool list \<Rightarrow> 'a list option" where
  "sol_computeRoot sha256 computed [] lefts = Some computed"
| "sol_computeRoot sha256 computed (p # proof) [] = None"
| "sol_computeRoot sha256 computed (p # proof) (l # lefts) =
     sol_computeRoot sha256
       (if l then sha256 (p @ computed) else sha256 (computed @ p))
       proof lefts"

definition verifyProof ::
  "('a list \<Rightarrow> 'a list) \<Rightarrow> 'a list \<Rightarrow> 'a list list \<Rightarrow> bool list \<Rightarrow> 'a list \<Rightarrow> bool option" where
  "verifyProof sha256 leaf proof lefts expectedRoot =
     map_option (\<lambda>computed. computed = expectedRoot) (sol_computeRoot sha256 leaf proof lefts)"

subsection \<open>The fold of the specification\<close>

text \<open>
  The specification's \<^verbatim>\<open>MerkleProof\<close> is an ordered list of
  \<^verbatim>\<open>{siblingHash, isLeftSibling}\<close>, and its \<^verbatim>\<open>verifyProof\<close> recomputes the root from the
  leaf hash by hashing \<open>sibling \<parallel> accumulator\<close> at an element whose flag says that the
  sibling is on the left, and \<open>accumulator \<parallel> sibling\<close> otherwise. This definition follows
  those words; a step is the pair of the sibling hash and the flag.
\<close>

definition foldStep :: "('a list \<Rightarrow> 'a list) \<Rightarrow> 'a list \<Rightarrow> 'a list \<times> bool \<Rightarrow> 'a list" where
  "foldStep sha256 acc step =
     (case step of
        (sibling, isLeftSibling) \<Rightarrow>
          if isLeftSibling then sha256 (sibling @ acc) else sha256 (acc @ sibling))"

definition foldUp :: "('a list \<Rightarrow> 'a list) \<Rightarrow> 'a list \<Rightarrow> ('a list \<times> bool) list \<Rightarrow> 'a list" where
  "foldUp sha256 leafHash path = foldl (foldStep sha256) leafHash path"

text \<open>
  The flag of a proof element \<^verbatim>\<open>{hash, left}\<close> is the specification's flag: the proofs
  are handed unchanged to both verifiers, and \<^verbatim>\<open>demo_anchor_flow.js\<close> passes \<^verbatim>\<open>p.left\<close>
  as the contract's \<^verbatim>\<open>lefts\<close>.
\<close>

definition proofPath :: "'a proofElement list \<Rightarrow> ('a list \<times> bool) list" where
  "proofPath proof = map (\<lambda>e. (hash e, left e)) proof"

section \<open>Chaincode environment\<close>

text \<open>
  What a chaincode call reads from its transaction context: the clock (\<^verbatim>\<open>new Date()\<close>, in
  milliseconds), \<^verbatim>\<open>ctx.stub.getTxID()\<close> and \<^verbatim>\<open>ctx.clientIdentity.getID()\<close>.
\<close>

record ctx =
  now :: int
  txID :: string
  clientID :: string

datatype epochStatus = NONE | PREPARING | PREPARED | COMMITTED | ABORTED | COMPLETED

text \<open>
  Every \<^verbatim>\<open>throw new Error(...)\<close> of the three chaincodes, by its message; \<open>SyntaxError\<close>
  and \<open>TypeError\<close> are the exceptions the JavaScript runtime raises itself
  (\<^verbatim>\<open>JSON.parse\<close> of a malformed argument, a property read on \<^verbatim>\<open>undefined\<close>).
\<close>

datatype error =
    RequiredArgument
  | RootAlreadyAnchored
  | InvalidSignaturesFormat
  | NotInitialized
  | InsufficientSignatures nat "int option"
  | InvalidSignatures nat
  | RootNotFound
  | NoTrustedRoot
  | InvalidProofFormat
  | ProofVerificationFailed
  | InvalidParticipantsFormat
  | NoParticipants
  | EpochAlreadyExists
  | EpochNotFound
  | CannotPrepare epochStatus
  | NotAParticipant
  | AlreadyPrepared
  | EpochTimedOut
  | CannotCommit epochStatus
  | NotAllPrepared
  | CommittedEpochNotFound
  | NotCommitted
  | SyntaxError
  | TypeError

text \<open>
  A chaincode function returns the ledger as its \<^verbatim>\<open>putState\<close> calls left it, together
  with the value it returns or the error it throws. Writes are applied as they are made,
  as in the key/value store of the specification: a call that writes and then throws
  (\<^verbatim>\<open>prepare\<close> at a timeout) returns the written ledger with its error. Events
  (\<^verbatim>\<open>setEvent\<close>) repeat fields of the returned value and are left out.

  \<^verbatim>\<open>getState\<close> of a key that was never written returns an empty buffer, as the guards
  \<^verbatim>\<open>!buffer || buffer.length === 0\<close> of the chaincode expect. An empty buffer is
  truthy, so \<^verbatim>\<open>getState(key) || Buffer.from('{}')\<close> yields the empty buffer, and
  \<^verbatim>\<open>JSON.parse\<close> of its text throws a \<^verbatim>\<open>SyntaxError\<close>. A ledger key that a call parses
  without such a guard is therefore an option: \<open>None\<close> while it was never written.
\<close>

type_synonym ('s, 'r) outcome = "'s \<times> (error + 'r)"

section \<open>Sidechain verifier chaincode\<close>

record trustedRoot =
  tr_sourceChain :: string
  tr_blockNumber :: string
  tr_merkleRoot :: string
  tr_timestamp :: int
  tr_proof :: string
  tr_status :: string
  verifiedTransactions :: "string list"

record verificationRecord =
  vr_transactionHash :: string
  vr_sourceChain :: string
  vr_blockNumber :: string
  vr_transactionData :: string
  vr_timestamp :: int
  vr_verifier :: string
  vr_status :: string

text \<open>
  The ledger keys the chaincode uses: the object under \<^verbatim>\<open>TRUSTED_ROOTS\<close>, keyed by
  \<^verbatim>\<open>`${sourceChain}:${blockNumber}`\<close>, and one entry \<^verbatim>\<open>verification~${transactionHash}\<close>
  per verified transaction. \<^verbatim>\<open>parseInt(blockNumber)\<close> is kept as the string it parses.
  The record is the ledger after \<^verbatim>\<open>initLedger\<close>, which writes \<^verbatim>\<open>TRUSTED_ROOTS\<close>.
\<close>

record verifierLedger =
  TRUSTED_ROOTS :: "string \<rightharpoonup> trustedRoot"
  verification :: "string \<rightharpoonup> verificationRecord"

definition trustedRootKey :: "string \<Rightarrow> string \<Rightarrow> string" where
  "trustedRootKey sourceChain blockNumber = sourceChain @ '':'' @ blockNumber"

definition setTrustedRoot ::
  "ctx \<Rightarrow> verifierLedger \<Rightarrow> string \<Rightarrow> string \<Rightarrow> string \<Rightarrow> string jsonArg
     \<Rightarrow> (verifierLedger, trustedRoot) outcome" where
  "setTrustedRoot c st sourceChain blockNumber merkleRoot proof =
     (if sourceChain = [] \<or> blockNumber = [] \<or> merkleRoot = [] then (st, Inl RequiredArgument)
      else case proof of
        Parsed relayProof \<Rightarrow>
          (let rootInfo = \<lparr> tr_sourceChain = sourceChain, tr_blockNumber = blockNumber,
                 tr_merkleRoot = merkleRoot, tr_timestamp = now c, tr_proof = relayProof,
                 tr_status = ''TRUSTED'', verifiedTransactions = [] \<rparr>
           in (st\<lparr> TRUSTED_ROOTS :=
                     (TRUSTED_ROOTS st)(trustedRootKey sourceChain blockNumber \<mapsto> rootInfo) \<rparr>,
               Inr rootInfo))
      | _ \<Rightarrow> (st, Inl SyntaxError))"

definition verifyTransaction ::
  "(string \<Rightarrow> string) \<Rightarrow> ctx \<Rightarrow> verifierLedger \<Rightarrow> string \<Rightarrow> string \<Rightarrow> string
     \<Rightarrow> (char proofElement list) jsonArg \<Rightarrow> (verifierLedger, verificationRecord) outcome" where
  "verifyTransaction sha256 c st sourceChain blockNumber transactionData merkleProof =
     (if sourceChain = [] \<or> blockNumber = [] \<or> transactionData = [] \<or> merkleProof = Empty
      then (st, Inl RequiredArgument)
      else case TRUSTED_ROOTS st (trustedRootKey sourceChain blockNumber) of
        None \<Rightarrow> (st, Inl NoTrustedRoot)
      | Some trustedRoot \<Rightarrow>
          (case merkleProof of
             Parsed proof \<Rightarrow>
               (let transactionHash = sha256 transactionData in
                if \<not> verifyMerkleProof sha256 transactionHash proof (tr_merkleRoot trustedRoot)
                then (st, Inl ProofVerificationFailed)
                else
                  let verificationRecord =
                        \<lparr> vr_transactionHash = transactionHash, vr_sourceChain = sourceChain,
                          vr_blockNumber = blockNumber, vr_transactionData = transactionData,
                          vr_timestamp = now c, vr_verifier = clientID c,
                          vr_status = ''VERIFIED'' \<rparr>;
                      trustedRoot' = trustedRoot\<lparr> verifiedTransactions :=
                          verifiedTransactions trustedRoot @ [transactionHash] \<rparr>
                  in (st\<lparr> verification := (verification st)(transactionHash \<mapsto> verificationRecord),
                          TRUSTED_ROOTS := (TRUSTED_ROOTS st)
                            (trustedRootKey sourceChain blockNumber \<mapsto> trustedRoot') \<rparr>,
                      Inr verificationRecord))
           | _ \<Rightarrow> (st, Inl InvalidProofFormat)))"

section \<open>Anchor registry chaincode\<close>

text \<open>
  An entry \<^verbatim>\<open>{validator, signature}\<close> of the parsed \<^verbatim>\<open>signatures\<close> array. A missing
  field is the empty string: both are falsy in the guards that read them.
\<close>

record signatureEntry =
  validator :: string
  signature :: string

record anchoredRoot =
  ar_chainId :: string
  ar_blockNumber :: string
  ar_merkleRoot :: string
  ar_timestamp :: int
  ar_txId :: string
  validatorSignatures :: "signatureEntry list"
  ar_metadata :: string
  ar_status :: string

text \<open>
  The ledger of the registry: the anchors under their keys \<^verbatim>\<open>root~${chainId}~${blockNumber}\<close>,
  the index entries \<^verbatim>\<open>chain~${chainId}~${blockNumber}\<close>, and the two configuration keys
  (\<open>None\<close> before \<^verbatim>\<open>initLedger\<close>). Before \<^verbatim>\<open>initLedger\<close> both read as empty buffers: the
  guard \<^verbatim>\<open>!validatorsBuffer || !requiredSigsBuffer\<close> does not fire, \<^verbatim>\<open>JSON.parse\<close> of
  the validators throws, and \<^verbatim>\<open>parseInt\<close> of the empty text is \<^verbatim>\<open>NaN\<close>, below which no
  length lies.
\<close>

record anchorLedger =
  roots :: "string \<rightharpoonup> anchoredRoot"
  chainIndex :: "string \<rightharpoonup> string"
  VALIDATORS :: "string list option"
  REQUIRED_SIGNATURES :: "int option"

definition initLedger :: "anchorLedger \<Rightarrow> anchorLedger" where
  "initLedger st = st\<lparr> VALIDATORS := Some [''validator1@org1.example.com'',
       ''validator2@org2.example.com'', ''validator3@org3.example.com''],
     REQUIRED_SIGNATURES := Some 2 \<rparr>"

definition createRootKey :: "string \<Rightarrow> string \<Rightarrow> string" where
  "createRootKey chainId blockNumber = ''root~'' @ chainId @ ''~'' @ blockNumber"

definition createMessageHash :: "(string \<Rightarrow> string) \<Rightarrow> string \<Rightarrow> string \<Rightarrow> string \<Rightarrow> string" where
  "createMessageHash sha256 chainId blockNumber merkleRoot =
     sha256 (chainId @ '':'' @ blockNumber @ '':'' @ merkleRoot)"

text \<open>
  The signature the chaincode computes for an entry and then never compares:
  \<^verbatim>\<open>expectedSig = sha256(messageHash + sig.validator)\<close>.
\<close>

definition expectedSig :: "(string \<Rightarrow> string) \<Rightarrow> string \<Rightarrow> signatureEntry \<Rightarrow> string" where
  "expectedSig sha256 messageHash sig = sha256 (messageHash @ validator sig)"

text \<open>
  \<^verbatim>\<open>verifySignatures\<close>: the loop pushes an entry when \<^verbatim>\<open>sig.validator\<close> is truthy and a
  member of \<^verbatim>\<open>validators\<close>, \<^verbatim>\<open>sig.signature\<close> is truthy, and
  \<^verbatim>\<open>sig.signature.length > 0\<close>.
\<close>

fun verifySignatures ::
  "(string \<Rightarrow> string) \<Rightarrow> string \<Rightarrow> signatureEntry list \<Rightarrow> string list \<Rightarrow> signatureEntry list" where
  "verifySignatures sha256 messageHash [] validators = []"
| "verifySignatures sha256 messageHash (sig # signatures) validators =
     (if validator sig \<noteq> [] \<and> validator sig \<in> set validators \<and> signature sig \<noteq> []
      then (let expected = expectedSig sha256 messageHash sig
            in if length (signature sig) > 0
               then sig # verifySignatures sha256 messageHash signatures validators
               else verifySignatures sha256 messageHash signatures validators)
      else verifySignatures sha256 messageHash signatures validators)"

definition belowRequired :: "nat \<Rightarrow> int option \<Rightarrow> bool" where
  "belowRequired n requiredSignatures \<longleftrightarrow>
     (case requiredSignatures of None \<Rightarrow> False | Some k \<Rightarrow> int n < k)"

definition anchorRoot ::
  "(string \<Rightarrow> string) \<Rightarrow> ctx \<Rightarrow> anchorLedger \<Rightarrow> string \<Rightarrow> string \<Rightarrow> string
     \<Rightarrow> (signatureEntry list) jsonArg \<Rightarrow> string jsonArg \<Rightarrow> (anchorLedger, anchoredRoot) outcome" where
  "anchorRoot sha256 c st chainId blockNumber merkleRoot signatures metadata =
     (if chainId = [] \<or> blockNumber = [] \<or> merkleRoot = [] then (st, Inl RequiredArgument)
      else let rootKey = createRootKey chainId blockNumber in
      if roots st rootKey \<noteq> None then (st, Inl RootAlreadyAnchored)
      else case signatures of
        Parsed parsedSignatures \<Rightarrow>
          (case VALIDATORS st of
             None \<Rightarrow> (st, Inl SyntaxError)
           | Some validators \<Rightarrow>
               let requiredSignatures = REQUIRED_SIGNATURES st in
               if belowRequired (length parsedSignatures) requiredSignatures
               then (st, Inl (InsufficientSignatures (length parsedSignatures)
                                requiredSignatures))
               else
                 let messageHash = createMessageHash sha256 chainId blockNumber merkleRoot;
                     validSignatures = verifySignatures sha256 messageHash parsedSignatures validators
                 in if belowRequired (length validSignatures) requiredSignatures
                    then (st, Inl (InvalidSignatures (length validSignatures)))
                    else (case metadata of
                       Parsed meta \<Rightarrow>
                         (let anchoredRoot =
                                \<lparr> ar_chainId = chainId, ar_blockNumber = blockNumber,
                                  ar_merkleRoot = merkleRoot, ar_timestamp = now c,
                                  ar_txId = txID c, validatorSignatures = validSignatures,
                                  ar_metadata = meta, ar_status = ''ANCHORED'' \<rparr>
                          in (st\<lparr> roots := (roots st)(rootKey \<mapsto> anchoredRoot),
                                  chainIndex := (chainIndex st)
                                    (''chain~'' @ chainId @ ''~'' @ blockNumber \<mapsto> rootKey) \<rparr>,
                              Inr anchoredRoot))
                     | _ \<Rightarrow> (st, Inl SyntaxError)))
      | _ \<Rightarrow> (st, Inl InvalidSignaturesFormat))"

definition getAnchoredRoot :: "anchorLedger \<Rightarrow> string \<Rightarrow> string \<Rightarrow> error + anchoredRoot" where
  "getAnchoredRoot st chainId blockNumber =
     (case roots st (createRootKey chainId blockNumber) of
        None \<Rightarrow> Inl RootNotFound | Some r \<Rightarrow> Inr r)"

section \<open>Solidity environment\<close>

text \<open>
  What a contract call reads from the EVM: \<^verbatim>\<open>msg.sender\<close>, \<^verbatim>\<open>block.timestamp\<close>, and the
  two primitives \<^verbatim>\<open>keccak256\<close> and \<^verbatim>\<open>ecrecover\<close>. A \<^verbatim>\<open>require\<close> that fails reverts the
  call with its message and leaves the storage as it was; a contract function therefore
  returns either the error or the new storage.
\<close>

record evm =
  msg_sender :: address
  block_timestamp :: nat
  keccak256 :: "byte list \<Rightarrow> bytes32"
  ecrecover :: "bytes32 \<Rightarrow> byte \<Rightarrow> bytes32 \<Rightarrow> bytes32 \<Rightarrow> address"

datatype sol_error = Revert string | Panic

text \<open>\<^verbatim>\<open>abi.encodePacked\<close> of an unsigned integer: its bytes, most significant first.\<close>

definition encodePacked :: "nat \<Rightarrow> 'a::len word \<Rightarrow> byte list" where
  "encodePacked n w = map (\<lambda>i. ucast (drop_bit (8 * i) w)) (rev [0..<n])"

definition bytesToWord :: "byte list \<Rightarrow> bytes32" where
  "bytesToWord bs = foldl (\<lambda>acc b. or (push_bit 8 acc) (ucast b)) 0 bs"

section \<open>Solidity \<^verbatim>\<open>AnchorRegistry\<close>\<close>

record sol_Anchor =
  a_root :: bytes32
  a_chainId :: "64 word"
  a_blockNumber :: "64 word"
  a_timestamp :: nat
  a_submitter :: address

record sol_AnchorRegistry =
  anchors :: "bytes32 \<Rightarrow> sol_Anchor"
  isValidator :: "address \<Rightarrow> bool"
  requiredSignatures :: nat
  validatorsList :: "address list"

definition signedMessagePrefix :: "byte list" where
  "signedMessagePrefix =
     0x19 # map of_char ''Ethereum Signed Message:'' @ 0x0A # map of_char ''32''"

definition recoverSigner :: "evm \<Rightarrow> bytes32 \<Rightarrow> byte list \<Rightarrow> address" where
  "recoverSigner env h sig =
     (if length sig \<noteq> 65 then 0
      else let r = bytesToWord (take 32 sig);
               s = bytesToWord (take 32 (drop 32 sig));
               v0 = sig ! 64;
               v = (if v0 < 27 then v0 + 27 else v0)
           in if v \<noteq> 27 \<and> v \<noteq> 28 then 0
              else ecrecover env
                     (keccak256 env (signedMessagePrefix @ encodePacked 32 h)) v r s)"

text \<open>
  The signature loop of \<^verbatim>\<open>anchorRoot\<close>, with its local state: the addresses seen so far
  (\<^verbatim>\<open>seenAddrs[0..seenCount)\<close>) and the counter \<^verbatim>\<open>valid\<close>. Each \<^verbatim>\<open>continue\<close> is a
  recursive call on the remaining signatures, the \<^verbatim>\<open>break\<close> returns at once.
\<close>

fun countValid ::
  "evm \<Rightarrow> sol_AnchorRegistry \<Rightarrow> bytes32 \<Rightarrow> byte list list \<Rightarrow> address list \<Rightarrow> nat \<Rightarrow> nat" where
  "countValid env st message [] seenAddrs valid = valid"
| "countValid env st message (sig # signatures) seenAddrs valid =
     (if length sig \<noteq> 65 then countValid env st message signatures seenAddrs valid
      else let signer = recoverSigner env message sig in
        if signer = 0 then countValid env st message signatures seenAddrs valid
        else if \<not> isValidator st signer then countValid env st message signatures seenAddrs valid
        else if signer \<in> set seenAddrs
          then countValid env st message signatures seenAddrs valid
        else if valid + 1 \<ge> requiredSignatures st then valid + 1
        else countValid env st message signatures (seenAddrs @ [signer]) (valid + 1))"

definition anchorKey :: "evm \<Rightarrow> 64 word \<Rightarrow> 64 word \<Rightarrow> bytes32" where
  "anchorKey env chainId blockNumber =
     keccak256 env (encodePacked 8 chainId @ encodePacked 8 blockNumber)"

definition sol_anchorRoot ::
  "evm \<Rightarrow> sol_AnchorRegistry \<Rightarrow> 64 word \<Rightarrow> 64 word \<Rightarrow> bytes32 \<Rightarrow> byte list list
     \<Rightarrow> sol_error + sol_AnchorRegistry" where
  "sol_anchorRoot env st chainId blockNumber merkleRoot signatures =
     (let key = anchorKey env chainId blockNumber in
      if a_timestamp (anchors st key) \<noteq> 0
      then Inl (Revert ''root already anchored for this chain/block'')
      else if \<not> length signatures \<ge> requiredSignatures st
      then Inl (Revert ''not enough signatures'')
      else
        let message = keccak256 env
              (encodePacked 8 chainId @ encodePacked 8 blockNumber @ encodePacked 32 merkleRoot);
            valid = countValid env st message signatures [] 0
        in if \<not> valid \<ge> requiredSignatures st
           then Inl (Revert ''insufficient valid signatures'')
           else Inr (st\<lparr> anchors := (anchors st)
                  (key := \<lparr> a_root = merkleRoot, a_chainId = chainId,
                            a_blockNumber = blockNumber, a_timestamp = block_timestamp env,
                            a_submitter = msg_sender env \<rparr>) \<rparr>))"

definition getAnchor :: "evm \<Rightarrow> sol_AnchorRegistry \<Rightarrow> 64 word \<Rightarrow> 64 word \<Rightarrow> bytes32 \<times> nat \<times> address" where
  "getAnchor env st chainId blockNumber =
     (let a = anchors st (anchorKey env chainId blockNumber)
      in (a_root a, a_timestamp a, a_submitter a))"

text \<open>The valid signers of a list of signatures, as the Solidity loop judges them.\<close>

definition validSigners :: "evm \<Rightarrow> sol_AnchorRegistry \<Rightarrow> bytes32 \<Rightarrow> byte list list \<Rightarrow> address set" where
  "validSigners env st message signatures =
     {signer. \<exists>sig \<in> set signatures. length sig = 65 \<and> signer = recoverSigner env message sig \<and>
        signer \<noteq> 0 \<and> isValidator st signer}"

section \<open>Coordinator chaincode\<close>

datatype preparationStatus = WAITING | P_PREPARED

datatype confirmationStatus = PENDING | CONFIRMED

datatype phase = PREPARE | COMMIT | PHASE_COMPLETED

record preparation =
  p_status :: preparationStatus
  p_timestamp :: "int option"
  p_data :: "string option"

record confirmation =
  c_status :: confirmationStatus
  c_timestamp :: "int option"

text \<open>
  The epoch object. \<open>timeout\<close> is \<^verbatim>\<open>parseInt(timeout)\<close>; a \<^verbatim>\<open>NaN\<close> is stored as
  \<^verbatim>\<open>null\<close> by \<^verbatim>\<open>JSON.stringify\<close>, which is \<open>None\<close>. The fields that a later call
  adds (\<^verbatim>\<open>commitTime\<close>, \<^verbatim>\<open>commitConfirmations\<close>, \<^verbatim>\<open>abortTime\<close>, \<^verbatim>\<open>abortReason\<close>,
  \<^verbatim>\<open>completionTime\<close>) are \<open>None\<close> until then. The object \<^verbatim>\<open>votes\<close>, set to \<^verbatim>\<open>null\<close>
  for each participant and never read, is left out.
\<close>

record epoch =
  epochId :: string
  status :: epochStatus
  participants :: "string list"
  preparations :: "string \<rightharpoonup> preparation"
  startTime :: int
  timeout :: "int option"
  coordinator :: string
  metadata :: string
  phase :: phase
  commitTime :: "int option"
  commitConfirmations :: "(string \<rightharpoonup> confirmation) option"
  abortTime :: "int option"
  abortReason :: "string option"
  completionTime :: "int option"

text \<open>
  The ledger of the coordinator: the records \<^verbatim>\<open>epoch~${epochId}\<close> and the three objects
  \<^verbatim>\<open>ACTIVE_EPOCHS\<close>, \<^verbatim>\<open>COMPLETED_EPOCHS\<close> and \<^verbatim>\<open>ABORTED_EPOCHS\<close>. \<^verbatim>\<open>ACTIVE_EPOCHS\<close> is
  iterated by \<^verbatim>\<open>cleanupTimeouts\<close>, so it keeps the order of its entries; \<^verbatim>\<open>initLedger\<close>
  writes it. \<^verbatim>\<open>COMPLETED_EPOCHS\<close> and \<^verbatim>\<open>ABORTED_EPOCHS\<close> are read as
  \<^verbatim>\<open>getState(key) || Buffer.from('{}')\<close> and then parsed; \<^verbatim>\<open>initLedger\<close> does not write
  them, and they are \<open>None\<close> until a call writes them.
\<close>

record coordinatorLedger =
  epochRecord :: "string \<rightharpoonup> epoch"
  ACTIVE_EPOCHS :: "(string \<times> epoch) list"
  COMPLETED_EPOCHS :: "(string \<rightharpoonup> epoch) option"
  ABORTED_EPOCHS :: "(string \<rightharpoonup> epoch) option"

text \<open>The ledger after \<^verbatim>\<open>initLedger\<close>, which writes \<^verbatim>\<open>CONFIG\<close> and \<^verbatim>\<open>ACTIVE_EPOCHS\<close> only.\<close>

definition initCoordinator :: coordinatorLedger where
  "initCoordinator = \<lparr> epochRecord = Map.empty, ACTIVE_EPOCHS = [],
     COMPLETED_EPOCHS = None, ABORTED_EPOCHS = None \<rparr>"

text \<open>The loop of \<^verbatim>\<open>beginEpoch\<close> that sets every participant to \<^verbatim>\<open>WAITING\<close>.\<close>

fun initPreparations :: "string list \<Rightarrow> (string \<rightharpoonup> preparation) \<Rightarrow> (string \<rightharpoonup> preparation)" where
  "initPreparations [] preps = preps"
| "initPreparations (participant # rest) preps =
     initPreparations rest
       (preps(participant \<mapsto> \<lparr> p_status = WAITING, p_timestamp = None, p_data = None \<rparr>))"

definition beginEpoch ::
  "ctx \<Rightarrow> coordinatorLedger \<Rightarrow> string \<Rightarrow> (string list) jsonArg \<Rightarrow> int option \<Rightarrow> string jsonArg
     \<Rightarrow> (coordinatorLedger, epoch) outcome" where
  "beginEpoch c st eid participantsArg timeoutArg metadataArg =
     (if eid = [] \<or> participantsArg = Empty then (st, Inl RequiredArgument)
      else case participantsArg of
        Parsed participantList \<Rightarrow>
          if length participantList = 0 then (st, Inl NoParticipants)
          else if map_of (ACTIVE_EPOCHS st) eid \<noteq> None then (st, Inl EpochAlreadyExists)
          else (case metadataArg of
             Parsed meta \<Rightarrow>
               (let e = \<lparr> epochId = eid, status = PREPARING, participants = participantList,
                          preparations = initPreparations participantList Map.empty,
                          startTime = now c, timeout = timeoutArg, coordinator = clientID c,
                          metadata = meta, phase = PREPARE, commitTime = None,
                          commitConfirmations = None, abortTime = None, abortReason = None,
                          completionTime = None \<rparr>
                in (st\<lparr> ACTIVE_EPOCHS := AList.update eid e (ACTIVE_EPOCHS st),
                        epochRecord := (epochRecord st)(eid \<mapsto> e) \<rparr>,
                    Inr e))
           | _ \<Rightarrow> (st, Inl SyntaxError))
      | _ \<Rightarrow> (st, Inl InvalidParticipantsFormat))"

text \<open>
  \<^verbatim>\<open>epoch.participants.every(p => epoch.preparations[p].status === 'PREPARED')\<close>: the
  callback throws a \<^verbatim>\<open>TypeError\<close> at a participant without an entry, and \<^verbatim>\<open>every\<close>
  stops at the first participant that is not prepared.
\<close>

fun everyPrepared :: "(string \<rightharpoonup> preparation) \<Rightarrow> string list \<Rightarrow> error + bool" where
  "everyPrepared preps [] = Inr True"
| "everyPrepared preps (p # ps) =
     (case preps p of
        None \<Rightarrow> Inl TypeError
      | Some pr \<Rightarrow> if p_status pr = P_PREPARED then everyPrepared preps ps else Inr False)"

fun everyConfirmed :: "(string \<rightharpoonup> confirmation) \<Rightarrow> string list \<Rightarrow> error + bool" where
  "everyConfirmed confs [] = Inr True"
| "everyConfirmed confs (p # ps) =
     (case confs p of
        None \<Rightarrow> Inl TypeError
      | Some cf \<Rightarrow> if c_status cf = CONFIRMED then everyConfirmed confs ps else Inr False)"

text \<open>
  The timeout test \<^verbatim>\<open>now.getTime() - startTime.getTime() > epoch.timeout\<close>; a \<^verbatim>\<open>null\<close>
  timeout compares as \<open>0\<close>.
\<close>

definition expired :: "ctx \<Rightarrow> epoch \<Rightarrow> bool" where
  "expired c e \<longleftrightarrow> now c - startTime e > (case timeout e of None \<Rightarrow> 0 | Some t \<Rightarrow> t)"

text \<open>
  \<^verbatim>\<open>abortEpoch\<close> writes the aborted record and removes the id from \<^verbatim>\<open>ACTIVE_EPOCHS\<close>, and
  only then parses \<^verbatim>\<open>ABORTED_EPOCHS\<close>: where that key was never written it throws after
  its first two writes.
\<close>

definition abortEpoch ::
  "ctx \<Rightarrow> coordinatorLedger \<Rightarrow> string \<Rightarrow> string \<Rightarrow> (coordinatorLedger, epoch) outcome" where
  "abortEpoch c st eid reason =
     (case epochRecord st eid of
        None \<Rightarrow> (st, Inl EpochNotFound)
      | Some e0 \<Rightarrow>
          (let e = e0\<lparr> status := ABORTED, phase := PHASE_COMPLETED,
                       abortTime := Some (now c), abortReason := Some reason \<rparr>;
               st1 = st\<lparr> epochRecord := (epochRecord st)(eid \<mapsto> e),
                         ACTIVE_EPOCHS := AList.delete eid (ACTIVE_EPOCHS st) \<rparr>
           in case ABORTED_EPOCHS st1 of
                None \<Rightarrow> (st1, Inl SyntaxError)
              | Some abortedEpochs \<Rightarrow>
                  (st1\<lparr> ABORTED_EPOCHS := Some (abortedEpochs(eid \<mapsto> e)) \<rparr>, Inr e)))"

definition abort ::
  "ctx \<Rightarrow> coordinatorLedger \<Rightarrow> string \<Rightarrow> string \<Rightarrow> (coordinatorLedger, epoch) outcome" where
  "abort c st eid reason = abortEpoch c st eid reason"

definition prepare ::
  "ctx \<Rightarrow> coordinatorLedger \<Rightarrow> string \<Rightarrow> string \<Rightarrow> string jsonArg
     \<Rightarrow> (coordinatorLedger, bool) outcome" where
  "prepare c st eid participantId preparationData =
     (if eid = [] \<or> participantId = [] then (st, Inl RequiredArgument)
      else case epochRecord st eid of
        None \<Rightarrow> (st, Inl EpochNotFound)
      | Some e0 \<Rightarrow>
          if status e0 \<noteq> PREPARING then (st, Inl (CannotPrepare (status e0)))
          else if participantId \<notin> set (participants e0) then (st, Inl NotAParticipant)
          else (case preparations e0 participantId of
             None \<Rightarrow> (st, Inl TypeError)
           | Some pr \<Rightarrow>
               if p_status pr \<noteq> WAITING then (st, Inl AlreadyPrepared)
               else if expired c e0 then
                 (case abortEpoch c st eid ''TIMEOUT'' of
                    (st', Inl err) \<Rightarrow> (st', Inl err)
                  | (st', Inr _) \<Rightarrow> (st', Inl EpochTimedOut))
               else (case preparationData of
                  Parsed d \<Rightarrow>
                    (let e1 = e0\<lparr> preparations := (preparations e0)(participantId \<mapsto>
                                 \<lparr> p_status = P_PREPARED, p_timestamp = Some (now c),
                                   p_data = Some d \<rparr>) \<rparr>
                     in case everyPrepared (preparations e1) (participants e1) of
                          Inl err \<Rightarrow> (st, Inl err)
                        | Inr allPrepared \<Rightarrow>
                            (let e = (if allPrepared
                                      then e1\<lparr> status := PREPARED, phase := COMMIT \<rparr> else e1)
                             in (st\<lparr> epochRecord := (epochRecord st)(eid \<mapsto> e),
                                     ACTIVE_EPOCHS := AList.update eid e (ACTIVE_EPOCHS st) \<rparr>,
                                 Inr allPrepared)))
                | _ \<Rightarrow> (st, Inl SyntaxError))))"

text \<open>
  The loop of \<^verbatim>\<open>commit\<close> that sets every participant's confirmation to \<^verbatim>\<open>PENDING\<close>.
  \<^verbatim>\<open>commit\<close> writes the committed record and removes the id from \<^verbatim>\<open>ACTIVE_EPOCHS\<close>, and
  only then parses \<^verbatim>\<open>COMPLETED_EPOCHS\<close>: where that key was never written it throws after
  its first two writes.
\<close>

fun initConfirmations :: "string list \<Rightarrow> (string \<rightharpoonup> confirmation) \<Rightarrow> (string \<rightharpoonup> confirmation)" where
  "initConfirmations [] confs = confs"
| "initConfirmations (participant # rest) confs =
     initConfirmations rest (confs(participant \<mapsto> \<lparr> c_status = PENDING, c_timestamp = None \<rparr>))"

definition commit :: "ctx \<Rightarrow> coordinatorLedger \<Rightarrow> string \<Rightarrow> (coordinatorLedger, epoch) outcome" where
  "commit c st eid =
     (if eid = [] then (st, Inl RequiredArgument)
      else case epochRecord st eid of
        None \<Rightarrow> (st, Inl EpochNotFound)
      | Some e0 \<Rightarrow>
          if status e0 \<noteq> PREPARED then (st, Inl (CannotCommit (status e0)))
          else (case everyPrepared (preparations e0) (participants e0) of
             Inl err \<Rightarrow> (st, Inl err)
           | Inr allPrepared \<Rightarrow>
               if \<not> allPrepared then (st, Inl NotAllPrepared)
               else
                 (let e = e0\<lparr> status := COMMITTED, phase := PHASE_COMPLETED,
                              commitTime := Some (now c),
                              commitConfirmations :=
                                Some (initConfirmations (participants e0) Map.empty) \<rparr>;
                      st1 = st\<lparr> epochRecord := (epochRecord st)(eid \<mapsto> e),
                                ACTIVE_EPOCHS := AList.delete eid (ACTIVE_EPOCHS st) \<rparr>
                  in case COMPLETED_EPOCHS st1 of
                       None \<Rightarrow> (st1, Inl SyntaxError)
                     | Some completedEpochs \<Rightarrow>
                         (st1\<lparr> COMPLETED_EPOCHS := Some (completedEpochs(eid \<mapsto> e)) \<rparr>,
                          Inr e))))"

text \<open>
  \<^verbatim>\<open>confirmCommit\<close> parses \<^verbatim>\<open>COMPLETED_EPOCHS\<close> before anything else. It returns
  \<^verbatim>\<open>{confirmed: true, allConfirmed}\<close>; the model returns the pair of the two flags.
\<close>

definition confirmCommit ::
  "ctx \<Rightarrow> coordinatorLedger \<Rightarrow> string \<Rightarrow> string \<Rightarrow> (coordinatorLedger, bool \<times> bool) outcome" where
  "confirmCommit c st eid participantId =
     (case COMPLETED_EPOCHS st of
        None \<Rightarrow> (st, Inl SyntaxError)
      | Some completedEpochs \<Rightarrow>
     (case completedEpochs eid of
        None \<Rightarrow> (st, Inl CommittedEpochNotFound)
      | Some e0 \<Rightarrow>
          if status e0 \<noteq> COMMITTED then (st, Inl NotCommitted)
          else (case commitConfirmations e0 of
             None \<Rightarrow> (st, Inl TypeError)
           | Some confs0 \<Rightarrow>
               (let confs = (if confs0 participantId \<noteq> None
                             then confs0(participantId \<mapsto>
                                    \<lparr> c_status = CONFIRMED, c_timestamp = Some (now c) \<rparr>)
                             else confs0);
                    e1 = e0\<lparr> commitConfirmations := Some confs \<rparr>
                in case everyConfirmed confs (participants e1) of
                     Inl err \<Rightarrow> (st, Inl err)
                   | Inr allConfirmed \<Rightarrow>
                       (let e = (if allConfirmed
                                 then e1\<lparr> status := COMPLETED, completionTime := Some (now c) \<rparr>
                                 else e1)
                        in (st\<lparr> COMPLETED_EPOCHS := Some (completedEpochs(eid \<mapsto> e)),
                                epochRecord := (epochRecord st)(eid \<mapsto> e) \<rparr>,
                            Inr (True, allConfirmed)))))))"

definition getEpochStatus :: "coordinatorLedger \<Rightarrow> string \<Rightarrow> error + epoch" where
  "getEpochStatus st eid =
     (case map_of (ACTIVE_EPOCHS st) eid of
        Some e \<Rightarrow> Inr e
      | None \<Rightarrow> (case epochRecord st eid of Some e \<Rightarrow> Inr e | None \<Rightarrow> Inl EpochNotFound))"

text \<open>
  \<^verbatim>\<open>cleanupTimeouts\<close> walks the entries of \<^verbatim>\<open>ACTIVE_EPOCHS\<close> as they were read at the start
  of the call and aborts each expired one; an error of \<^verbatim>\<open>abortEpoch\<close> ends the call.
\<close>

fun cleanupLoop ::
  "ctx \<Rightarrow> coordinatorLedger \<Rightarrow> (string \<times> epoch) list \<Rightarrow> string list
     \<Rightarrow> (coordinatorLedger, string list) outcome" where
  "cleanupLoop c st [] timedOutEpochs = (st, Inr timedOutEpochs)"
| "cleanupLoop c st ((eid, e) # rest) timedOutEpochs =
     (if expired c e then
        (case abortEpoch c st eid ''TIMEOUT'' of
           (st', Inl err) \<Rightarrow> (st', Inl err)
         | (st', Inr _) \<Rightarrow> cleanupLoop c st' rest (timedOutEpochs @ [eid]))
      else cleanupLoop c st rest timedOutEpochs)"

definition cleanupTimeouts :: "ctx \<Rightarrow> coordinatorLedger \<Rightarrow> (coordinatorLedger, string list) outcome" where
  "cleanupTimeouts c st = cleanupLoop c st (ACTIVE_EPOCHS st) []"

section \<open>Solidity \<^verbatim>\<open>ScimpCoordinator\<close>\<close>

text \<open>
  The \<^verbatim>\<open>Epoch\<close> struct; the two mappings hold \<open>0\<close> (waiting, pending) for every address
  that was never written. Participants are addresses, and the caller \<^verbatim>\<open>msg.sender\<close> takes
  the place of the chaincode's \<^verbatim>\<open>participantId\<close> argument.
\<close>

record sol_Epoch =
  e_id :: bytes32
  e_status :: epochStatus
  e_coordinator :: address
  e_participants :: "address list"
  e_startTime :: nat
  e_timeout :: nat
  preparationState :: "address \<Rightarrow> nat"
  commitConfirmation :: "address \<Rightarrow> nat"
  e_exists :: bool

record sol_ScimpCoordinator =
  epochs :: "bytes32 \<Rightarrow> sol_Epoch"
  activeEpochKeys :: "bytes32 list"

definition epochKey :: "evm \<Rightarrow> string \<Rightarrow> bytes32" where
  "epochKey env eid = keccak256 env (map of_char eid)"

text \<open>The push loop of \<^verbatim>\<open>beginEpoch\<close> over the participants.\<close>

fun pushParticipants :: "address list \<Rightarrow> sol_Epoch \<Rightarrow> sol_Epoch" where
  "pushParticipants [] e = e"
| "pushParticipants (p # ps) e =
     pushParticipants ps
       (e\<lparr> e_participants := e_participants e @ [p],
           preparationState := (preparationState e)(p := 0),
           commitConfirmation := (commitConfirmation e)(p := 0) \<rparr>)"

text \<open>
  \<^verbatim>\<open>block.timestamp * 1000\<close> is checked arithmetic on \<^verbatim>\<open>uint256\<close>: an overflow panics.
\<close>

definition sol_beginEpoch ::
  "evm \<Rightarrow> sol_ScimpCoordinator \<Rightarrow> string \<Rightarrow> address list \<Rightarrow> nat
     \<Rightarrow> sol_error + sol_ScimpCoordinator" where
  "sol_beginEpoch env st eid participantList timeoutMillis =
     (if \<not> length eid > 0 then Inl (Revert ''epochId required'')
      else if \<not> length participantList > 0 then Inl (Revert ''at least one participant'')
      else let key = epochKey env eid in
        if e_exists (epochs st key) then Inl (Revert ''epoch already exists'')
        else if block_timestamp env * 1000 \<ge> 2 ^ 256 then Inl Panic
        else
          let e = pushParticipants participantList
                    ((epochs st key)\<lparr> e_id := key, e_status := PREPARING,
                       e_coordinator := msg_sender env,
                       e_startTime := block_timestamp env * 1000,
                       e_timeout := timeoutMillis, e_exists := True \<rparr>)
          in Inr (st\<lparr> epochs := (epochs st)(key := e),
                      activeEpochKeys := activeEpochKeys st @ [key] \<rparr>))"

text \<open>The two search loops: ``is the sender a participant'' and ``is every state 1''.\<close>

definition allSet :: "(address \<Rightarrow> nat) \<Rightarrow> address list \<Rightarrow> bool" where
  "allSet m ps = list_all (\<lambda>p. m p = 1) ps"

definition sol_prepare :: "evm \<Rightarrow> sol_ScimpCoordinator \<Rightarrow> string \<Rightarrow> sol_error + sol_ScimpCoordinator" where
  "sol_prepare env st eid =
     (let key = epochKey env eid; e = epochs st key in
      if \<not> e_exists e then Inl (Revert ''epoch not found'')
      else if e_status e \<noteq> PREPARING then Inl (Revert ''epoch not in preparing state'')
      else if msg_sender env \<notin> set (e_participants e)
      then Inl (Revert ''sender not a participant'')
      else
        let e1 = e\<lparr> preparationState := (preparationState e)(msg_sender env := 1) \<rparr>;
            allPrepared = allSet (preparationState e1) (e_participants e1);
            e2 = (if allPrepared then e1\<lparr> e_status := PREPARED \<rparr> else e1)
        in Inr (st\<lparr> epochs := (epochs st)(key := e2) \<rparr>))"

definition sol_commit :: "evm \<Rightarrow> sol_ScimpCoordinator \<Rightarrow> string \<Rightarrow> sol_error + sol_ScimpCoordinator" where
  "sol_commit env st eid =
     (let key = epochKey env eid; e = epochs st key in
      if \<not> e_exists e then Inl (Revert ''epoch not found'')
      else if e_coordinator e \<noteq> msg_sender env then Inl (Revert ''only coordinator can commit'')
      else if e_status e \<noteq> PREPARED then Inl (Revert ''epoch not prepared'')
      else Inr (st\<lparr> epochs := (epochs st)(key := e\<lparr> e_status := COMMITTED \<rparr>) \<rparr>))"

definition sol_abort ::
  "evm \<Rightarrow> sol_ScimpCoordinator \<Rightarrow> string \<Rightarrow> string \<Rightarrow> sol_error + sol_ScimpCoordinator" where
  "sol_abort env st eid reason =
     (let key = epochKey env eid; e = epochs st key in
      if \<not> e_exists e then Inl (Revert ''epoch not found'')
      else Inr (st\<lparr> epochs := (epochs st)(key := e\<lparr> e_status := ABORTED \<rparr>) \<rparr>))"

definition sol_confirmCommit ::
  "evm \<Rightarrow> sol_ScimpCoordinator \<Rightarrow> string \<Rightarrow> sol_error + sol_ScimpCoordinator" where
  "sol_confirmCommit env st eid =
     (let key = epochKey env eid; e = epochs st key in
      if \<not> e_exists e then Inl (Revert ''epoch not found'')
      else if e_status e \<noteq> COMMITTED then Inl (Revert ''epoch not committed'')
      else if msg_sender env \<notin> set (e_participants e)
      then Inl (Revert ''sender not a participant'')
      else
        let e1 = e\<lparr> commitConfirmation := (commitConfirmation e)(msg_sender env := 1) \<rparr>;
            allConfirmed = allSet (commitConfirmation e1) (e_participants e1);
            e2 = (if allConfirmed then e1\<lparr> e_status := COMPLETED \<rparr> else e1)
        in Inr (st\<lparr> epochs := (epochs st)(key := e2) \<rparr>))"

section \<open>Reachable coordinator ledgers\<close>

text \<open>
  The ledgers the coordinator chaincode can be in: the one \<^verbatim>\<open>initLedger\<close> writes, and
  whatever a call of one of its functions leaves, with any arguments and at any time.
\<close>

inductive reachable :: "coordinatorLedger \<Rightarrow> bool" where
  init: "reachable initCoordinator"
| beginEpoch: "reachable st \<Longrightarrow> reachable (fst (beginEpoch c st eid ps t m))"
| prepare: "reachable st \<Longrightarrow> reachable (fst (prepare c st eid p d))"
| commit: "reachable st \<Longrightarrow> reachable (fst (commit c st eid))"
| abort: "reachable st \<Longrightarrow> reachable (fst (abort c st eid reason))"
| confirmCommit: "reachable st \<Longrightarrow> reachable (fst (confirmCommit c st eid p))"
| cleanupTimeouts: "reachable st \<Longrightarrow> reachable (fst (cleanupTimeouts c st))"

text \<open>Every participant of the epoch has a preparation entry with status \<^verbatim>\<open>PREPARED\<close>.\<close>

definition allParticipantsPrepared :: "epoch \<Rightarrow> bool" where
  "allParticipantsPrepared e \<longleftrightarrow>
     list_all (\<lambda>p. map_option p_status (preparations e p) = Some P_PREPARED) (participants e)"

definition preparedInvariant :: "coordinatorLedger \<Rightarrow> bool" where
  "preparedInvariant st \<longleftrightarrow>
     (\<forall>eid e. epochRecord st eid = Some e \<longrightarrow> status e = PREPARED \<longrightarrow> allParticipantsPrepared e)"

text \<open>
  Neither \<^verbatim>\<open>COMPLETED_EPOCHS\<close> nor \<^verbatim>\<open>ABORTED_EPOCHS\<close> has been written.
\<close>

definition keysUnwritten :: "coordinatorLedger \<Rightarrow> bool" where
  "keysUnwritten st \<longleftrightarrow> COMPLETED_EPOCHS st = None \<and> ABORTED_EPOCHS st = None"

section \<open>Example inputs\<close>

text \<open>The concrete ledgers and contexts at which the theorems below are evaluated.\<close>

definition exampleCtx :: ctx where
  "exampleCtx = \<lparr> now = 0, txID = ''tx-1'', clientID = ''client'' \<rparr>"

definition emptyAnchorLedger :: anchorLedger where
  "emptyAnchorLedger = \<lparr> roots = Map.empty, chainIndex = Map.empty, VALIDATORS = None,
     REQUIRED_SIGNATURES = None \<rparr>"

text \<open>
  A verifier ledger that trusts, for block 1000 of chain A, the root of the one-leaf
  tree over the transaction \<^verbatim>\<open>tx\<close>: the digest of \<^verbatim>\<open>tx\<close> itself, with the empty proof.
\<close>

definition exampleVerifierLedger :: "(string \<Rightarrow> string) \<Rightarrow> verifierLedger" where
  "exampleVerifierLedger sha256 =
     \<lparr> TRUSTED_ROOTS = [''A:1000'' \<mapsto>
          \<lparr> tr_sourceChain = ''A'', tr_blockNumber = ''1000'', tr_merkleRoot = sha256 ''tx'',
            tr_timestamp = 0, tr_proof = ''{}'', tr_status = ''TRUSTED'',
            verifiedTransactions = [] \<rparr>],
       verification = Map.empty \<rparr>"

definition verifyExample ::
  "(string \<Rightarrow> string) \<Rightarrow> verifierLedger \<Rightarrow> (verifierLedger, verificationRecord) outcome" where
  "verifyExample sha256 st =
     verifyTransaction sha256 exampleCtx st ''A'' ''1000'' ''tx'' (Parsed [])"

text \<open>
  The coordinator ledger after \<^verbatim>\<open>initLedger\<close> and \<^verbatim>\<open>beginEpoch("e1", ["A"], 1000)\<close>, the
  ledger after \<^verbatim>\<open>prepare("e1", "A")\<close> as well, and the ledger after \<^verbatim>\<open>commit("e1")\<close> as
  well, all at time 0. The \<^verbatim>\<open>commit\<close> call writes the committed record, removes the id
  from \<^verbatim>\<open>ACTIVE_EPOCHS\<close> and then throws on the never-written \<^verbatim>\<open>COMPLETED_EPOCHS\<close>;
  \<open>committedExample\<close> is the ledger it leaves.
\<close>

definition begunExample :: coordinatorLedger where
  "begunExample =
     fst (beginEpoch exampleCtx initCoordinator ''e1'' (Parsed [''A'']) (Some 1000) (Parsed ''{}''))"

definition preparedExample :: coordinatorLedger where
  "preparedExample = fst (prepare exampleCtx begunExample ''e1'' ''A'' (Parsed ''{}''))"

definition committedExample :: coordinatorLedger where
  "committedExample = fst (commit exampleCtx preparedExample ''e1'')"

text \<open>
  The ledger \<open>preparedExample\<close> after a \<^verbatim>\<open>cleanupTimeouts\<close> call at time 2000, when the
  timeout of 1000 ms has passed: \<^verbatim>\<open>abortEpoch\<close> writes the aborted record, removes the id
  from \<^verbatim>\<open>ACTIVE_EPOCHS\<close> and then throws on the never-written \<^verbatim>\<open>ABORTED_EPOCHS\<close>.
\<close>

definition timedOutExample :: coordinatorLedger where
  "timedOutExample = fst (cleanupTimeouts (exampleCtx\<lparr> now := 2000 \<rparr>) preparedExample)"

text \<open>The record \<^verbatim>\<open>epoch~e1\<close> of \<open>committedExample\<close>.\<close>

definition committedEpoch :: epoch where
  "committedEpoch =
     \<lparr> epochId = ''e1'', status = COMMITTED, participants = [''A''],
       preparations = [''A'' \<mapsto> \<lparr> p_status = P_PREPARED, p_timestamp = Some 0, p_data = Some ''{}'' \<rparr>],
       startTime = 0, timeout = Some 1000, coordinator = ''client'', metadata = ''{}'',
       phase = PHASE_COMPLETED, commitTime = Some 0,
       commitConfirmations = Some [''A'' \<mapsto> \<lparr> c_status = PENDING, c_timestamp = None \<rparr>],
       abortTime = None, abortReason = None, completionTime = None \<rparr>"

text \<open>
  An EVM environment for the examples. Its two primitives are stand-ins (a key function
  that separates the keys the examples use, and a signer recovery that recovers nobody);
  the theorems that are not about an example hold for every environment.
\<close>

definition exampleEvm :: evm where
  "exampleEvm = \<lparr> msg_sender = 1, block_timestamp = 0,
     keccak256 = (\<lambda>bs. of_nat (length bs)), ecrecover = (\<lambda>h v r s. 0) \<rparr>"

definition sol_emptyEpoch :: sol_Epoch where
  "sol_emptyEpoch = \<lparr> e_id = 0, e_status = NONE, e_coordinator = 0, e_participants = [],
     e_startTime = 0, e_timeout = 0, preparationState = (\<lambda>a. 0),
     commitConfirmation = (\<lambda>a. 0), e_exists = False \<rparr>"

definition sol_initCoordinator :: sol_ScimpCoordinator where
  "sol_initCoordinator = \<lparr> epochs = (\<lambda>k. sol_emptyEpoch), activeEpochKeys = [] \<rparr>"

text \<open>
  The Solidity coordinator after \<^verbatim>\<open>beginEpoch("e1", [1], 1000)\<close>, \<^verbatim>\<open>prepare("e1")\<close> and
  \<^verbatim>\<open>commit("e1")\<close>, each sent by address 1.
\<close>

definition sol_committedExample :: sol_ScimpCoordinator where
  "sol_committedExample =
     projr (sol_commit exampleEvm
       (projr (sol_prepare exampleEvm
          (projr (sol_beginEpoch exampleEvm sol_initCoordinator ''e1'' [1] 1000)) ''e1'')) ''e1'')"

text \<open>
  The registry ledger after \<^verbatim>\<open>initLedger\<close> and one \<^verbatim>\<open>anchorRoot\<close> for block 1000 of
  \<^verbatim>\<open>chainA\<close> signed by validators 1 and 2, and a Solidity registry that holds an anchor
  for block 1000 of chain 1.
\<close>

definition anchoredExample :: "(string \<Rightarrow> string) \<Rightarrow> anchorLedger" where
  "anchoredExample sha256 =
     fst (anchorRoot sha256 exampleCtx (initLedger emptyAnchorLedger) ''chainA'' ''1000'' ''root''
       (Parsed [\<lparr> validator = ''validator1@org1.example.com'', signature = ''s1'' \<rparr>,
                \<lparr> validator = ''validator2@org2.example.com'', signature = ''s2'' \<rparr>])
       (Parsed ''{}''))"

definition sol_anchoredExample :: sol_AnchorRegistry where
  "sol_anchoredExample =
     \<lparr> anchors = (\<lambda>k. \<lparr> a_root = 0, a_chainId = 0, a_blockNumber = 0, a_timestamp = 0,
                          a_submitter = 0 \<rparr>)
         (anchorKey exampleEvm 1 1000 :=
            \<lparr> a_root = 5, a_chainId = 1, a_blockNumber = 1000, a_timestamp = 1700000000,
              a_submitter = 1 \<rparr>),
       isValidator = (\<lambda>a. a = 1), requiredSignatures = 1, validatorsList = [1] \<rparr>"

section \<open>Theorems\<close>

subsection \<open>Merkle proof verification\<close>

text \<open>
  The Solidity \<^verbatim>\<open>verifyProof\<close>, given the elements' hashes and flags, is the fold of the
  specification.
\<close>

lemma sol_computeRoot_foldUp:
  "sol_computeRoot sha256 acc (map hash proof) (map left proof) =
     Some (foldUp sha256 acc (proofPath proof))"
  by (induction "proof" arbitrary: acc) (simp_all add: foldUp_def foldStep_def proofPath_def)

lemma verifyProof_iff_fold:
  "verifyProof sha256 leafHash (map hash proof) (map left proof) expectedRoot =
     Some (foldUp sha256 leafHash (proofPath proof) = expectedRoot)"
  by (simp add: verifyProof_def sol_computeRoot_foldUp)

text \<open>
  The chaincode's \<^verbatim>\<open>verifyMerkleProof\<close> is that fold with every flag inverted.
\<close>

lemma computeRoot_foldUp:
  "computeRoot sha256 acc proof =
     foldUp sha256 acc (proofPath (map (\<lambda>e. e\<lparr> left := \<not> left e \<rparr>) proof))"
  by (induction "proof" arbitrary: acc) (simp_all add: foldUp_def foldStep_def proofPath_def)

lemma verifyMerkleProof_inverted_fold:
  "verifyMerkleProof sha256 leafHash proof expectedRoot \<longleftrightarrow>
     foldUp sha256 leafHash (proofPath (map (\<lambda>e. e\<lparr> left := \<not> left e \<rparr>) proof)) = expectedRoot"
  by (simp add: verifyMerkleProof_def computeRoot_foldUp)

text \<open>
  Claim C3 says that the verifier returns true if and only if the fold from the leaf
  hash, hashing \<open>sibling \<parallel> accumulator\<close> at an element whose flag records the sibling on
  the left and \<open>accumulator \<parallel> sibling\<close> otherwise, yields the expected root. The
  chaincode's \<^verbatim>\<open>verifyMerkleProof\<close> hashes the other way round at every element. For a
  leaf hash and a sibling whose two concatenations have different digests: with the
  flag set, the fold yields \<open>sha256 (sibling \<parallel> leafHash)\<close>, and the chaincode rejects
  that root and accepts \<open>sha256 (leafHash \<parallel> sibling)\<close>, which the fold does not yield;
  with the flag clear, the fold yields \<open>sha256 (leafHash \<parallel> sibling)\<close> and the chaincode
  rejects that root.
\<close>

theorem verifyMerkleProof_inverts_flag:
  assumes "sha256 (sibling @ leafHash) \<noteq> sha256 (leafHash @ sibling)"
  shows "foldUp sha256 leafHash (proofPath [\<lparr> hash = sibling, left = True \<rparr>])
           = sha256 (sibling @ leafHash) \<and>
         \<not> verifyMerkleProof sha256 leafHash [\<lparr> hash = sibling, left = True \<rparr>]
             (sha256 (sibling @ leafHash)) \<and>
         verifyMerkleProof sha256 leafHash [\<lparr> hash = sibling, left = True \<rparr>]
           (sha256 (leafHash @ sibling)) \<and>
         foldUp sha256 leafHash (proofPath [\<lparr> hash = sibling, left = True \<rparr>])
           \<noteq> sha256 (leafHash @ sibling) \<and>
         foldUp sha256 leafHash (proofPath [\<lparr> hash = sibling, left = False \<rparr>])
           = sha256 (leafHash @ sibling) \<and>
         \<not> verifyMerkleProof sha256 leafHash [\<lparr> hash = sibling, left = False \<rparr>]
             (sha256 (leafHash @ sibling))"
  using assms
  by (simp add: verifyMerkleProof_def foldUp_def foldStep_def proofPath_def)

theorem verifyMerkleProof_inverts_flag_witness:
  "foldUp rev ''l'' (proofPath [\<lparr> hash = ''s'', left = True \<rparr>]) = ''ls'' \<and>
   \<not> verifyMerkleProof rev ''l'' [\<lparr> hash = ''s'', left = True \<rparr>] ''ls'' \<and>
   verifyMerkleProof rev ''l'' [\<lparr> hash = ''s'', left = True \<rparr>] ''sl'' \<and>
   foldUp rev ''l'' (proofPath [\<lparr> hash = ''s'', left = True \<rparr>]) \<noteq> ''sl'' \<and>
   foldUp rev ''l'' (proofPath [\<lparr> hash = ''s'', left = False \<rparr>]) = ''sl'' \<and>
   \<not> verifyMerkleProof rev ''l'' [\<lparr> hash = ''s'', left = False \<rparr>] ''sl''"
  using verifyMerkleProof_inverts_flag [of rev "''s''" "''l''"] by simp

lemma sol_computeRoot_flip:
  "sol_computeRoot sha256 acc (map hash proof) (map left proof) =
     Some (computeRoot sha256 acc (map (\<lambda>e. e\<lparr> left := \<not> left e \<rparr>) proof))"
  by (induction "proof" arbitrary: acc) simp_all

text \<open>
  On the same proof elements the Solidity verifier computes what the chaincode verifier
  computes once every flag is inverted.
\<close>

lemma verifyProof_flip:
  "verifyProof sha256 leaf (map hash proof) (map left proof) root =
     Some (verifyMerkleProof sha256 leaf (map (\<lambda>e. e\<lparr> left := \<not> left e \<rparr>) proof) root)"
  by (simp add: verifyProof_def verifyMerkleProof_def sol_computeRoot_flip)

text \<open>
  Claim C2 says that the two verifiers return the same result on every leaf, proof and
  root. They do not, even when both are given the same digest function on the same
  byte strings (the chaincode in fact hashes the hexadecimal text of its operands, the
  contract their 32 bytes): for a leaf \<open>l\<close>, the one-element proof with sibling \<open>s\<close> and
  flag \<^verbatim>\<open>left = true\<close>, and the root \<open>sha256 (s \<parallel> l)\<close>, the Solidity \<^verbatim>\<open>verifyProof\<close>
  hashes \<open>s \<parallel> l\<close> and accepts, the chaincode \<^verbatim>\<open>verifyMerkleProof\<close> hashes \<open>l \<parallel> s\<close> and
  rejects, whenever the digests of the two concatenations differ.
\<close>

theorem verifiers_disagree:
  assumes "sha256 (s @ l) \<noteq> sha256 (l @ s)"
  shows "verifyProof sha256 l [s] [True] (sha256 (s @ l)) = Some True \<and>
         verifyMerkleProof sha256 l [\<lparr> hash = s, left = True \<rparr>] (sha256 (s @ l)) = False"
  using assms by (auto simp add: verifyProof_def verifyMerkleProof_def)

theorem verifiers_disagree_witness:
  "verifyProof rev ''b'' [''a''] [True] ''ba'' = Some True \<and>
   verifyMerkleProof rev ''b'' [\<lparr> hash = ''a'', left = True \<rparr>] ''ba'' = False"
  using verifiers_disagree [of rev "''a''" "''b''"] by simp

subsection \<open>Sidechain verifier chaincode\<close>

lemma verifyTransaction_success:
  assumes "verifyTransaction sha256 c st sc bn tx pf = (st1, Inr r1)"
  shows "\<exists>t pr. sc \<noteq> [] \<and> bn \<noteq> [] \<and> tx \<noteq> [] \<and> pf = Parsed pr \<and>
           TRUSTED_ROOTS st (trustedRootKey sc bn) = Some t \<and>
           verifyMerkleProof sha256 (sha256 tx) pr (tr_merkleRoot t) \<and>
           r1 = \<lparr> vr_transactionHash = sha256 tx, vr_sourceChain = sc,
                  vr_blockNumber = bn, vr_transactionData = tx,
                  vr_timestamp = now c, vr_verifier = clientID c, vr_status = ''VERIFIED'' \<rparr> \<and>
           st1 = st\<lparr> verification := (verification st)(sha256 tx \<mapsto> r1),
                     TRUSTED_ROOTS := (TRUSTED_ROOTS st)(trustedRootKey sc bn \<mapsto>
                        t\<lparr> verifiedTransactions := verifiedTransactions t @ [sha256 tx] \<rparr>) \<rparr>"
  using assms
  by (auto simp add: verifyTransaction_def Let_def split: if_splits option.splits jsonArg.splits)

lemma verifyExample_first:
  "snd (verifyExample sha256 (exampleVerifierLedger sha256)) =
     Inr \<lparr> vr_transactionHash = sha256 ''tx'', vr_sourceChain = ''A'',
           vr_blockNumber = ''1000'', vr_transactionData = ''tx'', vr_timestamp = 0,
           vr_verifier = ''client'', vr_status = ''VERIFIED'' \<rparr>"
  by (simp add: verifyExample_def exampleVerifierLedger_def verifyTransaction_def
      trustedRootKey_def verifyMerkleProof_def exampleCtx_def Let_def)

lemma verifyExample_first_root:
  "\<exists>t. TRUSTED_ROOTS (fst (verifyExample sha256 (exampleVerifierLedger sha256))) ''A:1000'' = Some t
       \<and> tr_merkleRoot t = sha256 ''tx'' \<and> verifiedTransactions t = [sha256 ''tx'']"
  by (simp add: verifyExample_def exampleVerifierLedger_def verifyTransaction_def
      trustedRootKey_def verifyMerkleProof_def exampleCtx_def Let_def)

text \<open>
  Claim C10 says that a second \<^verbatim>\<open>verifyTransaction\<close> with the same arguments leaves the
  state equal to the state after the first. It does not: on the example ledger both
  calls succeed and return the same record, but the second call pushes the transaction
  hash onto \<^verbatim>\<open>verifiedTransactions\<close> once more, so the stored trusted root, and with it
  the ledger, differs from the one the first call left. This holds for every digest
  function.
\<close>

theorem verifyTransaction_twice_differs:
  "\<forall>sha256.
     (let first = verifyExample sha256 (exampleVerifierLedger sha256);
          second = verifyExample sha256 (fst first)
      in snd first = snd second \<and>
         snd second = Inr \<lparr> vr_transactionHash = sha256 ''tx'', vr_sourceChain = ''A'',
             vr_blockNumber = ''1000'', vr_transactionData = ''tx'', vr_timestamp = 0,
             vr_verifier = ''client'', vr_status = ''VERIFIED'' \<rparr> \<and>
         map_option verifiedTransactions (TRUSTED_ROOTS (fst first) ''A:1000'')
           = Some [sha256 ''tx''] \<and>
         map_option verifiedTransactions (TRUSTED_ROOTS (fst second) ''A:1000'')
           = Some [sha256 ''tx'', sha256 ''tx''] \<and>
         fst second \<noteq> fst first)"
proof
  fix sha256 :: "string \<Rightarrow> string"
  let ?first = "verifyExample sha256 (exampleVerifierLedger sha256)"
  let ?second = "verifyExample sha256 (fst ?first)"
  note r1 = verifyExample_first [of sha256]
  from verifyExample_first_root [of sha256] obtain t where
    t: "TRUSTED_ROOTS (fst ?first) ''A:1000'' = Some t"
       "tr_merkleRoot t = sha256 ''tx''" "verifiedTransactions t = [sha256 ''tx'']"
    by blast
  have l1: "map_option verifiedTransactions (TRUSTED_ROOTS (fst ?first) ''A:1000'')
           = Some [sha256 ''tx'']"
    using t by simp
  have r2: "snd ?second = Inr \<lparr> vr_transactionHash = sha256 ''tx'', vr_sourceChain = ''A'',
             vr_blockNumber = ''1000'', vr_transactionData = ''tx'', vr_timestamp = 0,
             vr_verifier = ''client'', vr_status = ''VERIFIED'' \<rparr>"
    using t by (simp add: verifyExample_def [of sha256 "fst ?first"] verifyTransaction_def
        trustedRootKey_def verifyMerkleProof_def exampleCtx_def Let_def)
  have l2: "map_option verifiedTransactions (TRUSTED_ROOTS (fst ?second) ''A:1000'')
           = Some [sha256 ''tx'', sha256 ''tx'']"
    using t by (simp add: verifyExample_def [of sha256 "fst ?first"] verifyTransaction_def
        trustedRootKey_def verifyMerkleProof_def exampleCtx_def Let_def)
  have ne: "fst ?second \<noteq> fst ?first"
  proof
    assume eq: "fst ?second = fst ?first"
    from l2 have "map_option verifiedTransactions (TRUSTED_ROOTS (fst ?first) ''A:1000'')
           = Some [sha256 ''tx'', sha256 ''tx'']"
      by (simp only: eq)
    with l1 show False by simp
  qed
  show "let first = verifyExample sha256 (exampleVerifierLedger sha256);
          second = verifyExample sha256 (fst first)
      in snd first = snd second \<and>
         snd second = Inr \<lparr> vr_transactionHash = sha256 ''tx'', vr_sourceChain = ''A'',
             vr_blockNumber = ''1000'', vr_transactionData = ''tx'', vr_timestamp = 0,
             vr_verifier = ''client'', vr_status = ''VERIFIED'' \<rparr> \<and>
         map_option verifiedTransactions (TRUSTED_ROOTS (fst first) ''A:1000'')
           = Some [sha256 ''tx''] \<and>
         map_option verifiedTransactions (TRUSTED_ROOTS (fst second) ''A:1000'')
           = Some [sha256 ''tx'', sha256 ''tx''] \<and>
         fst second \<noteq> fst first"
    unfolding Let_def using r1 r2 l1 l2 ne by simp
qed

text \<open>
  Claim C10, amended. After a successful \<^verbatim>\<open>verifyTransaction\<close>, a second call with the
  same arguments (in any transaction context \<open>c'\<close>) succeeds again. It returns and stores
  the same verification record, up to the timestamp and the verifier of the second
  call, under the same key. The trusted root is changed in one field only: the
  transaction hash is appended once more to \<^verbatim>\<open>verifiedTransactions\<close>, so the list grows
  while the set of verified hashes stays the same.
\<close>

theorem verifyTransaction_repeat:
  assumes "verifyTransaction sha256 c st sc bn tx pf = (st1, Inr r1)"
  shows "\<exists>st2 t1 t2.
           verifyTransaction sha256 c' st1 sc bn tx pf =
             (st2, Inr (r1\<lparr> vr_timestamp := now c', vr_verifier := clientID c' \<rparr>)) \<and>
           verification st2 = (verification st1)
             (vr_transactionHash r1 \<mapsto> r1\<lparr> vr_timestamp := now c', vr_verifier := clientID c' \<rparr>) \<and>
           TRUSTED_ROOTS st1 (trustedRootKey sc bn) = Some t1 \<and>
           TRUSTED_ROOTS st2 = (TRUSTED_ROOTS st1)(trustedRootKey sc bn \<mapsto> t2) \<and>
           t2 = t1\<lparr> verifiedTransactions := verifiedTransactions t1 @ [vr_transactionHash r1] \<rparr> \<and>
           set (verifiedTransactions t2) = set (verifiedTransactions t1)"
proof -
  from verifyTransaction_success [OF assms] obtain t pr where
    h: "sc \<noteq> []" "bn \<noteq> []" "tx \<noteq> []" "pf = Parsed pr"
       "TRUSTED_ROOTS st (trustedRootKey sc bn) = Some t"
       "verifyMerkleProof sha256 (sha256 tx) pr (tr_merkleRoot t)"
       "r1 = \<lparr> vr_transactionHash = sha256 tx, vr_sourceChain = sc,
                  vr_blockNumber = bn, vr_transactionData = tx,
                  vr_timestamp = now c, vr_verifier = clientID c, vr_status = ''VERIFIED'' \<rparr>"
       "st1 = st\<lparr> verification := (verification st)(sha256 tx \<mapsto> r1),
                     TRUSTED_ROOTS := (TRUSTED_ROOTS st)(trustedRootKey sc bn \<mapsto>
                        t\<lparr> verifiedTransactions := verifiedTransactions t @ [sha256 tx] \<rparr>) \<rparr>"
    by blast
  show ?thesis
    using h by (simp add: verifyTransaction_def Let_def)
qed

theorem verifyTransaction_repeat_witness:
  "\<forall>sha256. \<exists>st2 t1 t2.
     verifyTransaction sha256 exampleCtx (fst (verifyExample sha256 (exampleVerifierLedger sha256)))
         ''A'' ''1000'' ''tx'' (Parsed []) =
       (st2, Inr \<lparr> vr_transactionHash = sha256 ''tx'', vr_sourceChain = ''A'',
           vr_blockNumber = ''1000'', vr_transactionData = ''tx'', vr_timestamp = 0,
           vr_verifier = ''client'', vr_status = ''VERIFIED'' \<rparr>) \<and>
     TRUSTED_ROOTS (fst (verifyExample sha256 (exampleVerifierLedger sha256))) ''A:1000'' = Some t1 \<and>
     TRUSTED_ROOTS st2 ''A:1000'' = Some t2 \<and>
     verifiedTransactions t2 = verifiedTransactions t1 @ [sha256 ''tx''] \<and>
     set (verifiedTransactions t2) = set (verifiedTransactions t1)"
proof
  fix sha256 :: "string \<Rightarrow> string"
  let ?first = "verifyExample sha256 (exampleVerifierLedger sha256)"
  let ?r = "\<lparr> vr_transactionHash = sha256 ''tx'', vr_sourceChain = ''A'',
           vr_blockNumber = ''1000'', vr_transactionData = ''tx'', vr_timestamp = 0,
           vr_verifier = ''client'', vr_status = ''VERIFIED'' \<rparr>"
  have "verifyTransaction sha256 exampleCtx (exampleVerifierLedger sha256) ''A'' ''1000'' ''tx''
          (Parsed []) = (fst ?first, Inr ?r)"
    using verifyExample_first [of sha256] by (simp add: verifyExample_def prod_eq_iff)
  from verifyTransaction_repeat [OF this, of exampleCtx]
  show "\<exists>st2 t1 t2.
     verifyTransaction sha256 exampleCtx (fst ?first) ''A'' ''1000'' ''tx'' (Parsed []) =
       (st2, Inr ?r) \<and>
     TRUSTED_ROOTS (fst ?first) ''A:1000'' = Some t1 \<and>
     TRUSTED_ROOTS st2 ''A:1000'' = Some t2 \<and>
     verifiedTransactions t2 = verifiedTransactions t1 @ [sha256 ''tx''] \<and>
     set (verifiedTransactions t2) = set (verifiedTransactions t1)"
    by (auto simp add: exampleCtx_def trustedRootKey_def)
qed

subsection \<open>Coordinator chaincode: the reachable ledgers\<close>

lemma everyPrepared_True_iff:
  "everyPrepared preps ps = Inr True \<longleftrightarrow>
     list_all (\<lambda>p. map_option p_status (preps p) = Some P_PREPARED) ps"
  by (induction ps) (auto split: option.splits)

lemma everyPrepared_allParticipantsPrepared:
  "everyPrepared (preparations e) (participants e) = Inr True \<longleftrightarrow> allParticipantsPrepared e"
  by (simp add: everyPrepared_True_iff allParticipantsPrepared_def)

text \<open>
  No call of the chaincode writes \<^verbatim>\<open>COMPLETED_EPOCHS\<close> or \<^verbatim>\<open>ABORTED_EPOCHS\<close> before it
  has parsed the key, so in every reachable ledger both are still unwritten.
\<close>

lemma keys_abortEpoch:
  "keysUnwritten st \<Longrightarrow> keysUnwritten (fst (abortEpoch c st eid reason))"
  by (auto simp add: keysUnwritten_def abortEpoch_def Let_def split: option.splits)

lemma keys_cleanupLoop:
  "keysUnwritten st \<Longrightarrow> keysUnwritten (fst (cleanupLoop c st entries acc))"
proof (induction entries arbitrary: st acc)
  case Nil
  then show ?case by simp
next
  case (Cons a entries)
  obtain eid e where a: "a = (eid, e)" by (cases a)
  show ?case
    using Cons.IH [of st acc] Cons.IH [of "fst (abortEpoch c st eid ''TIMEOUT'')" "acc @ [eid]"]
      keys_abortEpoch [OF Cons.prems, of c eid "''TIMEOUT''"] Cons.prems
    by (auto simp add: a split: prod.splits sum.splits)
qed

lemma reachable_keysUnwritten: "reachable st \<Longrightarrow> keysUnwritten st"
proof (induction rule: reachable.induct)
  case init
  show ?case by (simp add: keysUnwritten_def initCoordinator_def)
next
  case (beginEpoch st c eid ps t m)
  then show ?case
    by (auto simp add: keysUnwritten_def beginEpoch_def Let_def split: jsonArg.splits)
next
  case (prepare st c eid p d)
  then show ?case
    using keys_abortEpoch [of st c eid "''TIMEOUT''"]
    by (auto simp add: prepare_def Let_def keysUnwritten_def
        split: jsonArg.splits option.splits sum.splits prod.splits if_splits)
next
  case (commit st c eid)
  then show ?case
    by (auto simp add: keysUnwritten_def commit_def Let_def split: option.splits sum.splits)
next
  case (abort st c eid reason)
  then show ?case by (simp add: abort_def keys_abortEpoch)
next
  case (confirmCommit st c eid p)
  then show ?case by (simp add: keysUnwritten_def confirmCommit_def)
next
  case (cleanupTimeouts st c)
  then show ?case by (simp add: cleanupTimeouts_def keys_cleanupLoop)
qed

text \<open>
  \<^verbatim>\<open>cleanupTimeouts\<close> is a sequence of \<^verbatim>\<open>abortEpoch\<close> calls: in whatever order it visits
  the entries, and whatever entries it visits, the ledger it leaves is reachable.
\<close>

lemma reachable_cleanupLoop:
  "reachable st \<Longrightarrow> reachable (fst (cleanupLoop c st entries acc))"
proof (induction entries arbitrary: st acc)
  case Nil
  then show ?case by simp
next
  case (Cons a entries)
  obtain eid e where a: "a = (eid, e)" by (cases a)
  have r: "reachable (fst (abortEpoch c st eid ''TIMEOUT''))"
    using reachable.abort [OF Cons.prems, of c eid "''TIMEOUT''"] by (simp add: abort_def)
  show ?case
    using Cons.IH [OF Cons.prems, of acc] Cons.IH [OF r, of "acc @ [eid]"] r
    by (auto simp add: a split: prod.splits sum.splits)
qed

text \<open>In every reachable ledger an epoch in \<^verbatim>\<open>PREPARED\<close> state has every participant prepared.\<close>

lemma inv_init: "preparedInvariant initCoordinator"
  by (simp add: preparedInvariant_def initCoordinator_def)

lemma inv_beginEpoch:
  "preparedInvariant st \<Longrightarrow> preparedInvariant (fst (beginEpoch c st eid ps t m))"
  by (auto simp add: preparedInvariant_def beginEpoch_def Let_def split: jsonArg.splits)

lemma inv_abortEpoch:
  "preparedInvariant st \<Longrightarrow> preparedInvariant (fst (abortEpoch c st eid reason))"
  by (auto simp add: preparedInvariant_def abortEpoch_def Let_def split: option.splits)

lemma inv_prepare:
  "preparedInvariant st \<Longrightarrow> preparedInvariant (fst (prepare c st eid p d))"
  using inv_abortEpoch [of st c eid "''TIMEOUT''"]
  by (auto simp add: prepare_def Let_def preparedInvariant_def allParticipantsPrepared_def
      everyPrepared_True_iff
      split: jsonArg.splits option.splits sum.splits prod.splits if_splits)

lemma inv_commit:
  "preparedInvariant st \<Longrightarrow> preparedInvariant (fst (commit c st eid))"
  by (auto simp add: preparedInvariant_def commit_def Let_def split: option.splits sum.splits)

lemma inv_confirmCommit:
  "preparedInvariant st \<Longrightarrow> preparedInvariant (fst (confirmCommit c st eid p))"
  by (auto simp add: preparedInvariant_def confirmCommit_def Let_def
      split: option.splits sum.splits)

lemma inv_cleanupLoop:
  "preparedInvariant st \<Longrightarrow> preparedInvariant (fst (cleanupLoop c st entries acc))"
proof (induction entries arbitrary: st acc)
  case Nil
  then show ?case by simp
next
  case (Cons a entries)
  obtain eid e where a: "a = (eid, e)" by (cases a)
  show ?case
    using Cons.IH [of st acc] Cons.IH [of "fst (abortEpoch c st eid ''TIMEOUT'')" "acc @ [eid]"]
      inv_abortEpoch [OF Cons.prems, of c eid "''TIMEOUT''"] Cons.prems
    by (auto simp add: a split: prod.splits sum.splits)
qed

lemma reachable_invariant: "reachable st \<Longrightarrow> preparedInvariant st"
proof (induction rule: reachable.induct)
  case init
  show ?case by (rule inv_init)
next
  case (abort st c eid reason)
  then show ?case by (simp add: abort_def inv_abortEpoch)
next
  case (cleanupTimeouts st c)
  then show ?case by (simp add: cleanupTimeouts_def inv_cleanupLoop)
qed (simp_all add: inv_beginEpoch inv_prepare inv_commit inv_confirmCommit)

text \<open>The example ledgers, written out.\<close>

lemma begunExample_eq:
  "begunExample =
     \<lparr> epochRecord = [''e1'' \<mapsto> committedEpoch\<lparr> status := PREPARING, phase := PREPARE,
          preparations := [''A'' \<mapsto> \<lparr> p_status = WAITING, p_timestamp = None, p_data = None \<rparr>],
          commitTime := None, commitConfirmations := None \<rparr>],
       ACTIVE_EPOCHS = [(''e1'', committedEpoch\<lparr> status := PREPARING, phase := PREPARE,
          preparations := [''A'' \<mapsto> \<lparr> p_status = WAITING, p_timestamp = None, p_data = None \<rparr>],
          commitTime := None, commitConfirmations := None \<rparr>)],
       COMPLETED_EPOCHS = None, ABORTED_EPOCHS = None \<rparr>"
  by (simp add: begunExample_def committedEpoch_def beginEpoch_def
      initCoordinator_def exampleCtx_def Let_def)

lemma preparedExample_eq:
  "preparedExample =
     \<lparr> epochRecord = [''e1'' \<mapsto> committedEpoch\<lparr> status := PREPARED, phase := COMMIT,
          commitTime := None, commitConfirmations := None \<rparr>],
       ACTIVE_EPOCHS = [(''e1'', committedEpoch\<lparr> status := PREPARED, phase := COMMIT,
          commitTime := None, commitConfirmations := None \<rparr>)],
       COMPLETED_EPOCHS = None, ABORTED_EPOCHS = None \<rparr>"
  by (simp add: preparedExample_def begunExample_eq committedEpoch_def prepare_def
      exampleCtx_def expired_def Let_def)

lemma committedExample_eq:
  "committedExample =
     \<lparr> epochRecord = [''e1'' \<mapsto> committedEpoch], ACTIVE_EPOCHS = [],
       COMPLETED_EPOCHS = None, ABORTED_EPOCHS = None \<rparr>"
  by (simp add: committedExample_def preparedExample_eq committedEpoch_def commit_def
      exampleCtx_def Let_def)

lemma reachable_begunExample: "reachable begunExample"
  unfolding begunExample_def by (intro reachable.intros)

lemma reachable_preparedExample: "reachable preparedExample"
  unfolding preparedExample_def by (intro reachable.intros reachable_begunExample)


lemma reachable_timedOutExample: "reachable timedOutExample"
  unfolding timedOutExample_def by (intro reachable.intros reachable_preparedExample)

subsection \<open>Coordinator chaincode: commit\<close>

text \<open>
  \<^verbatim>\<open>commit\<close> returns a value only on an existing epoch in \<^verbatim>\<open>PREPARED\<close> state whose
  participants are all prepared, and only where \<^verbatim>\<open>COMPLETED_EPOCHS\<close> has been written.
\<close>

lemma commit_succeeds_iff_raw:
  "\<not> isl (snd (commit c st eid)) \<longleftrightarrow>
     eid \<noteq> [] \<and> COMPLETED_EPOCHS st \<noteq> None \<and>
     (\<exists>e. epochRecord st eid = Some e \<and> status e = PREPARED \<and> allParticipantsPrepared e)"
  by (auto simp add: commit_def Let_def everyPrepared_allParticipantsPrepared [symmetric]
      split: option.splits sum.splits)

text \<open>
  On an epoch in \<^verbatim>\<open>PREPARED\<close> state of a reachable ledger, \<^verbatim>\<open>commit\<close> writes the
  committed record, removes the id from \<^verbatim>\<open>ACTIVE_EPOCHS\<close>, and throws at the parse of
  \<^verbatim>\<open>COMPLETED_EPOCHS\<close>.
\<close>

lemma commit_prepared_reachable:
  assumes "reachable st" "eid \<noteq> []" "epochRecord st eid = Some e" "status e = PREPARED"
  shows "commit c st eid =
           (st\<lparr> epochRecord := (epochRecord st)(eid \<mapsto>
                   e\<lparr> status := COMMITTED, phase := PHASE_COMPLETED, commitTime := Some (now c),
                      commitConfirmations := Some (initConfirmations (participants e) Map.empty) \<rparr>),
                 ACTIVE_EPOCHS := AList.delete eid (ACTIVE_EPOCHS st) \<rparr>,
            Inl SyntaxError)"
proof -
  have "allParticipantsPrepared e"
    using reachable_invariant [OF assms(1)] assms(3,4) by (simp add: preparedInvariant_def)
  then have "everyPrepared (preparations e) (participants e) = Inr True"
    by (simp add: everyPrepared_allParticipantsPrepared)
  moreover have "COMPLETED_EPOCHS st = None"
    using reachable_keysUnwritten [OF assms(1)] by (simp add: keysUnwritten_def)
  ultimately show ?thesis
    using assms(2,3,4) by (simp add: commit_def Let_def)
qed


lemma timedOutExample_epoch:
  "epochRecord timedOutExample ''e1'' =
     Some (committedEpoch\<lparr> status := ABORTED, commitTime := None, commitConfirmations := None,
             abortTime := Some 2000, abortReason := Some ''TIMEOUT'' \<rparr>)"
  by (simp add: timedOutExample_def preparedExample_eq committedEpoch_def cleanupTimeouts_def
      abortEpoch_def expired_def exampleCtx_def Let_def)




subsection \<open>Abort\<close>

lemma prepare_keeps_committed:
  "epochRecord st k = Some e \<Longrightarrow> status e \<in> {COMMITTED, COMPLETED} \<Longrightarrow>
   epochRecord (fst (prepare c st eid p d)) k = Some e"
  by (auto simp add: prepare_def abortEpoch_def Let_def
      split: option.splits sum.splits jsonArg.splits)

lemma commit_keeps_committed:
  "epochRecord st k = Some e \<Longrightarrow> status e \<in> {COMMITTED, COMPLETED} \<Longrightarrow>
   epochRecord (fst (commit c st eid)) k = Some e"
  by (auto simp add: commit_def Let_def split: option.splits sum.splits)

lemma confirmCommit_keeps_committed:
  "epochRecord st k = Some e \<Longrightarrow> status e \<in> {COMMITTED, COMPLETED} \<Longrightarrow>
   \<exists>e'. epochRecord (fst (confirmCommit c st eid p)) k = Some e' \<and>
        status e' \<in> {COMMITTED, COMPLETED}"
  by (auto simp add: confirmCommit_def Let_def split: option.splits sum.splits)

lemma sol_keeps_committed:
  assumes "e_status (epochs s k) \<in> {COMMITTED, COMPLETED}"
    and "sol_prepare env s eid = Inr s' \<or> sol_commit env s eid = Inr s' \<or>
         sol_confirmCommit env s eid = Inr s'"
  shows "e_status (epochs s' k) \<in> {COMMITTED, COMPLETED}"
  using assms
  by (auto simp add: sol_prepare_def sol_commit_def sol_confirmCommit_def Let_def
      split: if_splits)

lemma sol_committedExample_epoch:
  "e_exists (epochs sol_committedExample 2) \<and> e_status (epochs sol_committedExample 2) = COMMITTED \<and>
   e_participants (epochs sol_committedExample 2) = [1]"
  by (simp add: sol_committedExample_def sol_commit_def sol_prepare_def sol_beginEpoch_def
      sol_initCoordinator_def sol_emptyEpoch_def exampleEvm_def epochKey_def allSet_def Let_def)

lemma epochKey_example: "epochKey exampleEvm ''e1'' = 2"
  by (simp add: epochKey_def exampleEvm_def)

text \<open>
  What the chaincode's \<^verbatim>\<open>abort\<close> ends with on an existing epoch: the aborted record
  where \<^verbatim>\<open>ABORTED_EPOCHS\<close> has been written, and otherwise, so in every reachable
  ledger, the error of the parse, after the aborted record was written.
\<close>

lemma abort_result:
  "epochRecord st eid = Some e0 \<Longrightarrow>
   snd (abort c st eid reason) =
     (case ABORTED_EPOCHS st of
        None \<Rightarrow> Inl SyntaxError
      | Some abortedEpochs \<Rightarrow>
          Inr (e0\<lparr> status := ABORTED, phase := PHASE_COMPLETED, abortTime := Some (now c),
                   abortReason := Some reason \<rparr>))"
  by (simp add: abort_def abortEpoch_def Let_def split: option.splits)

lemma abort_reachable:
  "reachable st \<Longrightarrow> epochRecord st eid = Some e0 \<Longrightarrow>
   snd (abort c st eid reason) = Inl SyntaxError"
  using reachable_keysUnwritten [of st] by (simp add: abort_result keysUnwritten_def)

text \<open>
  Claim C4 says that \<^verbatim>\<open>abort\<close> fails on a \<^verbatim>\<open>COMMITTED\<close> or \<^verbatim>\<open>COMPLETED\<close> epoch and
  leaves its status unchanged. It does not: neither implementation looks at the status.
  In the ledger \<open>committedExample\<close> the epoch \<^verbatim>\<open>e1\<close> is \<^verbatim>\<open>COMMITTED\<close>, and
  \<^verbatim>\<open>abort("e1", "MANUAL_ABORT")\<close> leaves its record \<^verbatim>\<open>ABORTED\<close>. In the Solidity
  coordinator \<open>sol_committedExample\<close> the epoch \<^verbatim>\<open>e1\<close> is \<^verbatim>\<open>COMMITTED\<close>, and
  \<^verbatim>\<open>abort("e1", "MANUAL_ABORT")\<close> succeeds and leaves it \<^verbatim>\<open>ABORTED\<close>.
\<close>

theorem abort_after_commit:
  "map_option status (epochRecord committedExample ''e1'') = Some COMMITTED \<and>
   map_option status
     (epochRecord (fst (abort exampleCtx committedExample ''e1'' ''MANUAL_ABORT'')) ''e1'')
     = Some ABORTED \<and>
   e_status (epochs sol_committedExample (epochKey exampleEvm ''e1'')) = COMMITTED \<and>
   \<not> isl (sol_abort exampleEvm sol_committedExample ''e1'' ''MANUAL_ABORT'') \<and>
   e_status (epochs (projr (sol_abort exampleEvm sol_committedExample ''e1'' ''MANUAL_ABORT''))
               (epochKey exampleEvm ''e1'')) = ABORTED"
  by (simp add: committedExample_eq committedEpoch_def abort_def abortEpoch_def Let_def
      sol_committedExample_epoch epochKey_example sol_abort_def)

text \<open>
  Claim C4, amended. Neither implementation of \<^verbatim>\<open>abort(epochId, reason)\<close> has a state
  guard. For an unknown epoch the call fails with ``not found'' and changes nothing. For
  every existing epoch, whatever its status (\<^verbatim>\<open>COMMITTED\<close> and \<^verbatim>\<open>COMPLETED\<close> included),
  the chaincode writes the epoch record with the status \<^verbatim>\<open>ABORTED\<close>, the abort time and
  the reason, and the Solidity contract succeeds and sets the status to \<^verbatim>\<open>ABORTED\<close>. The
  calls \<^verbatim>\<open>prepare\<close>, \<^verbatim>\<open>commit\<close> and \<^verbatim>\<open>confirmCommit\<close> never move a \<^verbatim>\<open>COMMITTED\<close> or
  \<^verbatim>\<open>COMPLETED\<close> epoch to \<^verbatim>\<open>ABORTED\<close> or \<^verbatim>\<open>PREPARING\<close>: after any of them, with any
  arguments, such an epoch is still \<^verbatim>\<open>COMMITTED\<close> or \<^verbatim>\<open>COMPLETED\<close>.
\<close>

theorem abort_from_any_state:
  "(epochRecord st eid = None \<longrightarrow> abort c st eid reason = (st, Inl EpochNotFound)) \<and>
   (\<forall>e0. epochRecord st eid = Some e0 \<longrightarrow>
      epochRecord (fst (abort c st eid reason)) eid =
        Some (e0\<lparr> status := ABORTED, phase := PHASE_COMPLETED, abortTime := Some (now c),
                  abortReason := Some reason \<rparr>)) \<and>
   (\<not> e_exists (epochs s (epochKey env eid)) \<longrightarrow>
      sol_abort env s eid reason = Inl (Revert ''epoch not found'')) \<and>
   (e_exists (epochs s (epochKey env eid)) \<longrightarrow>
      (\<exists>s'. sol_abort env s eid reason = Inr s' \<and>
            e_status (epochs s' (epochKey env eid)) = ABORTED)) \<and>
   (\<forall>k e. epochRecord st k = Some e \<and> status e \<in> {COMMITTED, COMPLETED} \<longrightarrow>
      epochRecord (fst (prepare c st eid p d)) k = Some e \<and>
      epochRecord (fst (commit c st eid)) k = Some e \<and>
      (\<exists>e'. epochRecord (fst (confirmCommit c st eid p)) k = Some e' \<and>
            status e' \<in> {COMMITTED, COMPLETED})) \<and>
   (\<forall>k s'. e_status (epochs s k) \<in> {COMMITTED, COMPLETED} \<and>
      (sol_prepare env s eid = Inr s' \<or> sol_commit env s eid = Inr s' \<or>
       sol_confirmCommit env s eid = Inr s') \<longrightarrow>
      e_status (epochs s' k) \<in> {COMMITTED, COMPLETED})"
proof -
  have a: "epochRecord st eid = None \<longrightarrow> abort c st eid reason = (st, Inl EpochNotFound)"
    by (simp add: abort_def abortEpoch_def)
  have b: "\<forall>e0. epochRecord st eid = Some e0 \<longrightarrow>
      epochRecord (fst (abort c st eid reason)) eid =
        Some (e0\<lparr> status := ABORTED, phase := PHASE_COMPLETED, abortTime := Some (now c),
                  abortReason := Some reason \<rparr>)"
    by (simp add: abort_def abortEpoch_def Let_def split: option.splits)
  have c: "\<not> e_exists (epochs s (epochKey env eid)) \<longrightarrow>
      sol_abort env s eid reason = Inl (Revert ''epoch not found'')"
    by (simp add: sol_abort_def Let_def)
  have d: "e_exists (epochs s (epochKey env eid)) \<longrightarrow>
      (\<exists>s'. sol_abort env s eid reason = Inr s' \<and>
            e_status (epochs s' (epochKey env eid)) = ABORTED)"
    by (simp add: sol_abort_def Let_def)
  have e: "\<forall>k e. epochRecord st k = Some e \<and> status e \<in> {COMMITTED, COMPLETED} \<longrightarrow>
      epochRecord (fst (prepare c st eid p d)) k = Some e \<and>
      epochRecord (fst (commit c st eid)) k = Some e \<and>
      (\<exists>e'. epochRecord (fst (confirmCommit c st eid p)) k = Some e' \<and>
            status e' \<in> {COMMITTED, COMPLETED})"
    using prepare_keeps_committed commit_keeps_committed confirmCommit_keeps_committed
    by blast
  have f: "\<forall>k s'. e_status (epochs s k) \<in> {COMMITTED, COMPLETED} \<and>
      (sol_prepare env s eid = Inr s' \<or> sol_commit env s eid = Inr s' \<or>
       sol_confirmCommit env s eid = Inr s') \<longrightarrow>
      e_status (epochs s' k) \<in> {COMMITTED, COMPLETED}"
    using sol_keeps_committed by blast
  show ?thesis using a b c d e f by blast
qed

theorem abort_from_any_state_witness:
  "epochRecord committedExample ''e1'' = Some committedEpoch \<and>
   status committedEpoch \<in> {COMMITTED, COMPLETED} \<and>
   epochRecord (fst (abort exampleCtx committedExample ''e1'' ''MANUAL_ABORT'')) ''e1'' =
     Some (committedEpoch\<lparr> status := ABORTED, phase := PHASE_COMPLETED, abortTime := Some 0,
             abortReason := Some ''MANUAL_ABORT'' \<rparr>) \<and>
   epochRecord initCoordinator ''e1'' = None \<and>
   abort exampleCtx initCoordinator ''e1'' ''MANUAL_ABORT'' = (initCoordinator, Inl EpochNotFound) \<and>
   epochRecord (fst (prepare exampleCtx committedExample ''e1'' ''A'' (Parsed ''{}''))) ''e1''
     = Some committedEpoch \<and>
   epochRecord (fst (commit exampleCtx committedExample ''e1'')) ''e1'' = Some committedEpoch \<and>
   (\<exists>e'. epochRecord (fst (confirmCommit exampleCtx committedExample ''e1'' ''A'')) ''e1'' = Some e'
         \<and> status e' \<in> {COMMITTED, COMPLETED}) \<and>
   e_exists (epochs sol_committedExample (epochKey exampleEvm ''e1'')) \<and>
   e_status (epochs sol_committedExample (epochKey exampleEvm ''e1'')) = COMMITTED \<and>
   (\<exists>s'. sol_abort exampleEvm sol_committedExample ''e1'' ''MANUAL_ABORT'' = Inr s' \<and>
         e_status (epochs s' (epochKey exampleEvm ''e1'')) = ABORTED) \<and>
   \<not> e_exists (epochs sol_initCoordinator (epochKey exampleEvm ''e1'')) \<and>
   sol_abort exampleEvm sol_initCoordinator ''e1'' ''MANUAL_ABORT'' = Inl (Revert ''epoch not found'')"
proof -
  have h1: "epochRecord committedExample ''e1'' = Some committedEpoch"
    by (simp add: committedExample_eq)
  have h2: "status committedEpoch \<in> {COMMITTED, COMPLETED}"
    by (simp add: committedEpoch_def)
  have h3: "epochRecord initCoordinator ''e1'' = None"
    by (simp add: initCoordinator_def)
  have h4: "e_exists (epochs sol_committedExample (epochKey exampleEvm ''e1''))"
    "e_status (epochs sol_committedExample (epochKey exampleEvm ''e1'')) = COMMITTED"
    by (simp_all add: sol_committedExample_epoch epochKey_example)
  have h5: "\<not> e_exists (epochs sol_initCoordinator (epochKey exampleEvm ''e1''))"
    by (simp add: sol_initCoordinator_def sol_emptyEpoch_def)
  note t1 = abort_from_any_state [of committedExample "''e1''" exampleCtx "''MANUAL_ABORT''"
      sol_committedExample exampleEvm "''A''" "Parsed ''{}''"]
  note t2 = abort_from_any_state [of initCoordinator "''e1''" exampleCtx "''MANUAL_ABORT''"
      sol_initCoordinator exampleEvm "''A''" "Parsed ''{}''"]
  from t1 h1 h2 have a1:
    "epochRecord (fst (abort exampleCtx committedExample ''e1'' ''MANUAL_ABORT'')) ''e1'' =
     Some (committedEpoch\<lparr> status := ABORTED, phase := PHASE_COMPLETED, abortTime := Some 0,
             abortReason := Some ''MANUAL_ABORT'' \<rparr>)"
    "epochRecord (fst (prepare exampleCtx committedExample ''e1'' ''A'' (Parsed ''{}''))) ''e1''
     = Some committedEpoch"
    "epochRecord (fst (commit exampleCtx committedExample ''e1'')) ''e1'' = Some committedEpoch"
    "\<exists>e'. epochRecord (fst (confirmCommit exampleCtx committedExample ''e1'' ''A'')) ''e1'' = Some e'
         \<and> status e' \<in> {COMMITTED, COMPLETED}"
    by (simp_all add: exampleCtx_def)
  from t1 h4 have a2: "\<exists>s'. sol_abort exampleEvm sol_committedExample ''e1'' ''MANUAL_ABORT'' = Inr s' \<and>
         e_status (epochs s' (epochKey exampleEvm ''e1'')) = ABORTED"
    by blast
  from t2 h3 h5 have a3:
    "abort exampleCtx initCoordinator ''e1'' ''MANUAL_ABORT'' = (initCoordinator, Inl EpochNotFound)"
    "sol_abort exampleEvm sol_initCoordinator ''e1'' ''MANUAL_ABORT'' = Inl (Revert ''epoch not found'')"
    by blast+
  show ?thesis using h1 h2 h3 h4 h5 a1 a2 a3 by blast
qed

subsection \<open>Prepare and the timeout\<close>

text \<open>
  What the chaincode does at a timeout, and both implementations after an abort. At a
  timeout \<^verbatim>\<open>prepare\<close> does not mark the participant: it writes the aborted record with
  the reason \<^verbatim>\<open>TIMEOUT\<close>, and ends with the timeout error where \<^verbatim>\<open>ABORTED_EPOCHS\<close> has
  been written and with the error of its parse otherwise.
\<close>

lemma sol_prepare_time_independent:
  "sol_prepare (env\<lparr> block_timestamp := t \<rparr>) s eid = sol_prepare env s eid"
  by (simp add: sol_prepare_def epochKey_def Let_def)

lemma prepare_timeout:
  assumes "epochRecord st eid = Some e" "eid \<noteq> []" "p \<noteq> []" "status e = PREPARING"
    "p \<in> set (participants e)" "map_option p_status (preparations e p) = Some WAITING"
    "expired c e"
  shows "snd (prepare c st eid p d) =
           (if ABORTED_EPOCHS st = None then Inl SyntaxError else Inl EpochTimedOut) \<and>
         epochRecord (fst (prepare c st eid p d)) eid =
           Some (e\<lparr> status := ABORTED, phase := PHASE_COMPLETED, abortTime := Some (now c),
                    abortReason := Some ''TIMEOUT'' \<rparr>)"
  using assms by (auto simp add: prepare_def abortEpoch_def Let_def split: option.splits)

lemma prepare_after_abort:
  assumes "epochRecord st eid = Some e" "eid \<noteq> []" "p \<noteq> []" "status e = ABORTED"
  shows "prepare c st eid p d = (st, Inl (CannotPrepare ABORTED))"
  using assms by (simp add: prepare_def)

lemma prepare_after_cleanupTimeouts:
  "prepare exampleCtx timedOutExample ''e1'' ''A'' (Parsed ''{}'') =
     (timedOutExample, Inl (CannotPrepare ABORTED))"
  by (simp add: prepare_def timedOutExample_epoch)

lemma sol_prepare_after_abort:
  assumes "e_exists (epochs s (epochKey env eid))" "e_status (epochs s (epochKey env eid)) = ABORTED"
  shows "sol_prepare env s eid = Inl (Revert ''epoch not in preparing state'')"
  using assms by (simp add: sol_prepare_def Let_def)

text \<open>
  Claim C7 says that a \<^verbatim>\<open>prepare\<close> call that arrives after the timeout does not mark the
  participant prepared but aborts the epoch. The chaincode checks the timeout
  (\<open>prepare_timeout\<close>); the Solidity \<^verbatim>\<open>prepare\<close> never reads the clock. An epoch begun at
  time 0 with a timeout of 1000 ms, whose only participant calls \<^verbatim>\<open>prepare\<close> at
  \<^verbatim>\<open>block.timestamp = 2\<close> (2000 ms later), is marked prepared and moves to \<^verbatim>\<open>PREPARED\<close>, in
  every EVM environment.
\<close>

theorem sol_prepare_ignores_timeout:
  "\<exists>s1 s2.
     sol_beginEpoch (env\<lparr> block_timestamp := 0 \<rparr>) sol_initCoordinator ''e1'' [msg_sender env] 1000
       = Inr s1 \<and>
     e_startTime (epochs s1 (epochKey env ''e1'')) = 0 \<and>
     e_timeout (epochs s1 (epochKey env ''e1'')) = 1000 \<and>
     sol_prepare (env\<lparr> block_timestamp := 2 \<rparr>) s1 ''e1'' = Inr s2 \<and>
     e_status (epochs s2 (epochKey env ''e1'')) = PREPARED"
  by (simp add: sol_prepare_def sol_beginEpoch_def sol_initCoordinator_def sol_emptyEpoch_def
      epochKey_def allSet_def Let_def)

subsection \<open>Epoch identifiers\<close>

text \<open>
  Claim C6 says that \<^verbatim>\<open>beginEpoch\<close> fails for every epoch id that was ever used, terminal
  epochs included. The chaincode looks the id up in \<^verbatim>\<open>ACTIVE_EPOCHS\<close> only, from which
  \<^verbatim>\<open>commit\<close> and \<^verbatim>\<open>abortEpoch\<close> delete it: in the ledger \<open>committedExample\<close>, where
  \<^verbatim>\<open>e1\<close> is \<^verbatim>\<open>COMMITTED\<close>, a second \<^verbatim>\<open>beginEpoch("e1", ["A"], 1000)\<close> succeeds and
  overwrites the record \<^verbatim>\<open>epoch~e1\<close> with a fresh epoch in \<^verbatim>\<open>PREPARING\<close> state.
\<close>

theorem beginEpoch_after_commit:
  "map_option status (epochRecord committedExample ''e1'') = Some COMMITTED \<and>
   \<not> isl (snd (beginEpoch exampleCtx committedExample ''e1'' (Parsed [''A'']) (Some 1000)
                 (Parsed ''{}''))) \<and>
   map_option status
     (epochRecord (fst (beginEpoch exampleCtx committedExample ''e1'' (Parsed [''A''])
                          (Some 1000) (Parsed ''{}''))) ''e1'')
     = Some PREPARING"
  by (simp add: committedExample_eq committedEpoch_def beginEpoch_def Let_def)

text \<open>The two parts of the claim that hold: an active id and an empty list are refused.\<close>

lemma beginEpoch_active_duplicate:
  "map_of (ACTIVE_EPOCHS st) eid \<noteq> None \<Longrightarrow> eid \<noteq> [] \<Longrightarrow> ps \<noteq> [] \<Longrightarrow>
   beginEpoch c st eid (Parsed ps) t m = (st, Inl EpochAlreadyExists)"
  by (simp add: beginEpoch_def)

lemma beginEpoch_no_participants:
  "eid \<noteq> [] \<Longrightarrow> beginEpoch c st eid (Parsed []) t m = (st, Inl NoParticipants)"
  by (simp add: beginEpoch_def)

lemma sol_beginEpoch_duplicate:
  "e_exists (epochs s (epochKey env eid)) \<Longrightarrow> eid \<noteq> [] \<Longrightarrow> ps \<noteq> [] \<Longrightarrow>
   sol_beginEpoch env s eid ps t = Inl (Revert ''epoch already exists'')"
  by (simp add: sol_beginEpoch_def Let_def)

subsection \<open>Confirming a commit\<close>

text \<open>
  In every reachable ledger \<^verbatim>\<open>confirmCommit\<close> ends at its first statement, the parse of
  the never-written \<^verbatim>\<open>COMPLETED_EPOCHS\<close>, for every epoch and every caller.
\<close>

lemma confirmCommit_reachable:
  "reachable st \<Longrightarrow> confirmCommit c st eid p = (st, Inl SyntaxError)"
  using reachable_keysUnwritten [of st] by (simp add: confirmCommit_def keysUnwritten_def)

text \<open>
  Where \<^verbatim>\<open>COMPLETED_EPOCHS\<close> holds the committed epoch (a ledger that no call of the
  chaincode builds), a caller that is not a participant is not refused either: the
  chaincode skips the update and returns \<^verbatim>\<open>{confirmed: true, allConfirmed: false}\<close>.
\<close>

lemma confirmCommit_skips_participant_check:
  "''Z'' \<notin> set (participants committedEpoch) \<and>
   confirmCommit exampleCtx (committedExample\<lparr> COMPLETED_EPOCHS := Some [''e1'' \<mapsto> committedEpoch] \<rparr>)
       ''e1'' ''Z'' =
     (committedExample\<lparr> COMPLETED_EPOCHS := Some [''e1'' \<mapsto> committedEpoch] \<rparr>, Inr (True, False))"
  by (simp add: committedExample_eq committedEpoch_def confirmCommit_def Let_def)

text \<open>The Solidity contract refuses such a caller, and completes the epoch at the last confirmation.\<close>

lemma sol_confirmCommit_non_participant:
  "e_exists (epochs s (epochKey env eid)) \<Longrightarrow> e_status (epochs s (epochKey env eid)) = COMMITTED \<Longrightarrow>
   msg_sender env \<notin> set (e_participants (epochs s (epochKey env eid))) \<Longrightarrow>
   sol_confirmCommit env s eid = Inl (Revert ''sender not a participant'')"
  by (simp add: sol_confirmCommit_def Let_def)

lemma sol_confirmCommit_completes:
  "\<not> isl (sol_confirmCommit exampleEvm sol_committedExample ''e1'') \<and>
   e_status (epochs (projr (sol_confirmCommit exampleEvm sol_committedExample ''e1''))
               (epochKey exampleEvm ''e1'')) = COMPLETED"
proof -
  have sender: "msg_sender exampleEvm = 1"
    by (simp add: exampleEvm_def)
  show ?thesis
    using sol_committedExample_epoch
    by (simp add: sol_confirmCommit_def epochKey_example sender allSet_def Let_def)
qed

text \<open>
  Claim C9 says that \<^verbatim>\<open>confirmCommit\<close> fails with a not-a-participant error for a caller
  that is not a participant, and that the epoch moves to \<^verbatim>\<open>COMPLETED\<close> when all
  participants have confirmed. The chaincode has no such error, and it cannot confirm at
  all: \<^verbatim>\<open>confirmCommit\<close> starts by parsing \<^verbatim>\<open>COMPLETED_EPOCHS\<close>, which \<^verbatim>\<open>initLedger\<close> does
  not write and \<^verbatim>\<open>commit\<close> writes only after parsing it. In the ledger
  \<open>committedExample\<close>, whose epoch \<^verbatim>\<open>e1\<close> is \<^verbatim>\<open>COMMITTED\<close> with the single participant
  \<^verbatim>\<open>A\<close>, \<^verbatim>\<open>confirmCommit("e1", "Z")\<close> fails with a \<^verbatim>\<open>SyntaxError\<close>, not with a
  not-a-participant error, and \<^verbatim>\<open>confirmCommit("e1", "A")\<close>, the confirmation of the only
  participant, fails with the same error and leaves the epoch \<^verbatim>\<open>COMMITTED\<close>.
\<close>

theorem confirmCommit_after_commit:
  "map_option status (epochRecord committedExample ''e1'') = Some COMMITTED \<and>
   map_option participants (epochRecord committedExample ''e1'') = Some [''A''] \<and>
   confirmCommit exampleCtx committedExample ''e1'' ''Z'' = (committedExample, Inl SyntaxError) \<and>
   confirmCommit exampleCtx committedExample ''e1'' ''A'' = (committedExample, Inl SyntaxError) \<and>
   map_option status
     (epochRecord (fst (confirmCommit exampleCtx committedExample ''e1'' ''A'')) ''e1'')
     = Some COMMITTED"
  by (simp add: committedExample_eq committedEpoch_def confirmCommit_def)

subsection \<open>Anchor registry\<close>

text \<open>
  Claim C1 says that copies of one validator's signature count once and that a signature
  which does not verify does not count. In the chaincode neither holds:
  \<^verbatim>\<open>verifySignatures\<close> keeps every entry that names a validator and carries a non-empty
  signature. With the validator set of \<^verbatim>\<open>initLedger\<close> (two signatures required), two
  copies of one entry of validator 1 with the signature \<^verbatim>\<open>x\<close> anchor the root, for every
  digest function.
\<close>

theorem anchorRoot_counts_copies:
  "snd (anchorRoot sha256 c (initLedger emptyAnchorLedger) ''chainA'' ''1000'' ''root''
         (Parsed [\<lparr> validator = ''validator1@org1.example.com'', signature = ''x'' \<rparr>,
                  \<lparr> validator = ''validator1@org1.example.com'', signature = ''x'' \<rparr>])
         (Parsed ''{}''))
   = Inr \<lparr> ar_chainId = ''chainA'', ar_blockNumber = ''1000'', ar_merkleRoot = ''root'',
           ar_timestamp = now c, ar_txId = txID c,
           validatorSignatures =
             [\<lparr> validator = ''validator1@org1.example.com'', signature = ''x'' \<rparr>,
              \<lparr> validator = ''validator1@org1.example.com'', signature = ''x'' \<rparr>],
           ar_metadata = ''{}'', ar_status = ''ANCHORED'' \<rparr>"
  by (simp add: anchorRoot_def belowRequired_def initLedger_def emptyAnchorLedger_def createRootKey_def Let_def)

lemma anchorRoot_keeps_roots:
  "roots st k = Some a \<Longrightarrow>
   roots (fst (anchorRoot sha256 c st chainId blockNumber merkleRoot sigs meta)) k = Some a"
  by (auto simp add: anchorRoot_def belowRequired_def Let_def split: jsonArg.splits option.splits prod.splits)

lemma sol_anchorRoot_keeps_anchors:
  "a_timestamp (anchors s k) \<noteq> 0 \<Longrightarrow> sol_anchorRoot env s cid bn mr ssigs = Inr s' \<Longrightarrow>
   anchors s' k = anchors s k"
  by (auto simp add: sol_anchorRoot_def Let_def split: if_splits)

text \<open>
  Claim C5. Where an anchor exists for \<open>(chainId, blockNumber)\<close>, a second \<^verbatim>\<open>anchorRoot\<close>
  for that pair fails whatever signatures and metadata it carries, and leaves the ledger
  as it was; a call with its three required arguments present fails with the duplicate
  error (``Root already anchored''). No call of \<^verbatim>\<open>anchorRoot\<close>, with any arguments,
  changes a stored anchor. The same holds for the Solidity contract, where an anchor
  exists when its timestamp is not zero.
\<close>

theorem anchor_unique:
  "(roots st (createRootKey chainId blockNumber) \<noteq> None \<longrightarrow>
      fst (anchorRoot sha256 c st chainId blockNumber merkleRoot sigs meta) = st \<and>
      isl (snd (anchorRoot sha256 c st chainId blockNumber merkleRoot sigs meta))) \<and>
   (roots st (createRootKey chainId blockNumber) \<noteq> None \<and>
    chainId \<noteq> [] \<and> blockNumber \<noteq> [] \<and> merkleRoot \<noteq> [] \<longrightarrow>
      anchorRoot sha256 c st chainId blockNumber merkleRoot sigs meta =
        (st, Inl RootAlreadyAnchored)) \<and>
   (roots st k = Some a \<longrightarrow>
      roots (fst (anchorRoot sha256 c st chainId blockNumber merkleRoot sigs meta)) k = Some a) \<and>
   (a_timestamp (anchors s (anchorKey env cid bn)) \<noteq> 0 \<longrightarrow>
      sol_anchorRoot env s cid bn mr ssigs =
        Inl (Revert ''root already anchored for this chain/block'')) \<and>
   (a_timestamp (anchors s key) \<noteq> 0 \<and> sol_anchorRoot env s cid bn mr ssigs = Inr s' \<longrightarrow>
      anchors s' key = anchors s key)"
  using anchorRoot_keeps_roots [of st k a sha256 c chainId blockNumber merkleRoot sigs meta]
    sol_anchorRoot_keeps_anchors [of s key env cid bn mr ssigs s']
  by (simp add: anchorRoot_def belowRequired_def sol_anchorRoot_def Let_def)

lemma anchoredExample_root:
  "roots (anchoredExample sha256) (createRootKey ''chainA'' ''1000'') =
     Some \<lparr> ar_chainId = ''chainA'', ar_blockNumber = ''1000'', ar_merkleRoot = ''root'',
            ar_timestamp = 0, ar_txId = ''tx-1'',
            validatorSignatures =
              [\<lparr> validator = ''validator1@org1.example.com'', signature = ''s1'' \<rparr>,
               \<lparr> validator = ''validator2@org2.example.com'', signature = ''s2'' \<rparr>],
            ar_metadata = ''{}'', ar_status = ''ANCHORED'' \<rparr>"
  by (simp add: anchoredExample_def anchorRoot_def belowRequired_def initLedger_def emptyAnchorLedger_def
      createRootKey_def exampleCtx_def Let_def)

theorem anchor_unique_witness:
  "\<forall>sha256.
     roots (anchoredExample sha256) (createRootKey ''chainA'' ''1000'') \<noteq> None \<and>
     anchorRoot sha256 exampleCtx (anchoredExample sha256) ''chainA'' ''1000'' ''other root''
         (Parsed []) Malformed
       = (anchoredExample sha256, Inl RootAlreadyAnchored) \<and>
     roots (fst (anchorRoot sha256 exampleCtx (anchoredExample sha256) ''chainB'' ''7'' ''root''
         (Parsed [\<lparr> validator = ''validator1@org1.example.com'', signature = ''s1'' \<rparr>,
                  \<lparr> validator = ''validator3@org3.example.com'', signature = ''s3'' \<rparr>])
         (Parsed ''{}''))) (createRootKey ''chainA'' ''1000'')
       = roots (anchoredExample sha256) (createRootKey ''chainA'' ''1000'') \<and>
     a_timestamp (anchors sol_anchoredExample (anchorKey exampleEvm 1 1000)) \<noteq> 0 \<and>
     sol_anchorRoot exampleEvm sol_anchoredExample 1 1000 7 [] =
       Inl (Revert ''root already anchored for this chain/block'')"
proof
  fix sha256 :: "string \<Rightarrow> string"
  let ?a = "\<lparr> ar_chainId = ''chainA'', ar_blockNumber = ''1000'', ar_merkleRoot = ''root'',
            ar_timestamp = 0, ar_txId = ''tx-1'',
            validatorSignatures =
              [\<lparr> validator = ''validator1@org1.example.com'', signature = ''s1'' \<rparr>,
               \<lparr> validator = ''validator2@org2.example.com'', signature = ''s2'' \<rparr>],
            ar_metadata = ''{}'', ar_status = ''ANCHORED'' \<rparr>"
  have h1: "roots (anchoredExample sha256) (createRootKey ''chainA'' ''1000'') \<noteq> None"
    by (simp add: anchoredExample_root)
  have h2: "a_timestamp (anchors sol_anchoredExample (anchorKey exampleEvm 1 1000)) \<noteq> 0"
    by (simp add: sol_anchoredExample_def)
  have args: "''chainA'' \<noteq> []" "''1000'' \<noteq> []" "''other root'' \<noteq> []"
    by simp_all
  have c1: "anchorRoot sha256 exampleCtx (anchoredExample sha256) ''chainA'' ''1000''
         ''other root'' (Parsed []) Malformed
       = (anchoredExample sha256, Inl RootAlreadyAnchored)"
    using anchor_unique [of "anchoredExample sha256" "''chainA''" "''1000''" sha256 exampleCtx
      "''other root''" "Parsed []" Malformed] h1 args by blast
  have c2: "roots (fst (anchorRoot sha256 exampleCtx (anchoredExample sha256) ''chainB'' ''7'' ''root''
         (Parsed [\<lparr> validator = ''validator1@org1.example.com'', signature = ''s1'' \<rparr>,
                  \<lparr> validator = ''validator3@org3.example.com'', signature = ''s3'' \<rparr>])
         (Parsed ''{}''))) (createRootKey ''chainA'' ''1000'') = Some ?a"
    using anchor_unique [of "anchoredExample sha256" "''chainB''" "''7''" sha256 exampleCtx
      "''root''" "Parsed [\<lparr> validator = ''validator1@org1.example.com'', signature = ''s1'' \<rparr>,
                  \<lparr> validator = ''validator3@org3.example.com'', signature = ''s3'' \<rparr>]"
      "Parsed ''{}''" "createRootKey ''chainA'' ''1000''" ?a] anchoredExample_root [of sha256]
    by blast
  have c3: "sol_anchorRoot exampleEvm sol_anchoredExample 1 1000 7 [] =
       Inl (Revert ''root already anchored for this chain/block'')"
    using anchor_unique [where s = sol_anchoredExample and env = exampleEvm and cid = 1
        and bn = 1000 and mr = 7 and ssigs = "[]"] h2
    by blast
  show "roots (anchoredExample sha256) (createRootKey ''chainA'' ''1000'') \<noteq> None \<and>
     anchorRoot sha256 exampleCtx (anchoredExample sha256) ''chainA'' ''1000'' ''other root''
         (Parsed []) Malformed
       = (anchoredExample sha256, Inl RootAlreadyAnchored) \<and>
     roots (fst (anchorRoot sha256 exampleCtx (anchoredExample sha256) ''chainB'' ''7'' ''root''
         (Parsed [\<lparr> validator = ''validator1@org1.example.com'', signature = ''s1'' \<rparr>,
                  \<lparr> validator = ''validator3@org3.example.com'', signature = ''s3'' \<rparr>])
         (Parsed ''{}''))) (createRootKey ''chainA'' ''1000'')
       = roots (anchoredExample sha256) (createRootKey ''chainA'' ''1000'') \<and>
     a_timestamp (anchors sol_anchoredExample (anchorKey exampleEvm 1 1000)) \<noteq> 0 \<and>
     sol_anchorRoot exampleEvm sol_anchoredExample 1 1000 7 [] =
       Inl (Revert ''root already anchored for this chain/block'')"
    using h1 h2 c1 c2 c3 anchoredExample_root [of sha256] by (simp only: simp_thms)
qed



text \<open>
  The Solidity \<^verbatim>\<open>anchorRoot\<close> does enforce the quorum of claim C1: where no anchor exists
  for the pair, it succeeds if and only if the signatures hold at least
  \<^verbatim>\<open>requiredSignatures\<close> distinct valid signers.
\<close>

lemma validSigners_Nil [simp]: "validSigners env st message [] = {}"
  by (simp add: validSigners_def)

lemma validSigners_Cons:
  "validSigners env st message (sig # sigs) =
     (if length sig = 65 \<and> recoverSigner env message sig \<noteq> 0 \<and>
         isValidator st (recoverSigner env message sig)
      then insert (recoverSigner env message sig) (validSigners env st message sigs)
      else validSigners env st message sigs)"
  by (auto simp add: validSigners_def)

lemma finite_validSigners [simp]: "finite (validSigners env st message sigs)"
  by (induction sigs) (simp_all add: validSigners_Cons)

lemma countValid_quorum:
  assumes "distinct seen" "valid = length seen" "valid < requiredSignatures st"
  shows "countValid env st message sigs seen valid \<ge> requiredSignatures st \<longleftrightarrow>
         card (set seen \<union> validSigners env st message sigs) \<ge> requiredSignatures st"
  using assms
proof (induction sigs arbitrary: seen valid)
  case Nil
  then show ?case by (simp add: distinct_card)
next
  case (Cons sig sigs)
  let ?signer = "recoverSigner env message sig"
  show ?case
  proof (cases "length sig = 65 \<and> ?signer \<noteq> 0 \<and> isValidator st ?signer")
    case False
    then show ?thesis
      using Cons.IH [OF Cons.prems] by (auto simp add: validSigners_Cons Let_def)
  next
    case valid_sig: True
    show ?thesis
    proof (cases "?signer \<in> set seen")
      case True
      then have "set seen \<union> insert ?signer (validSigners env st message sigs) =
                 set seen \<union> validSigners env st message sigs" by auto
      then show ?thesis
        using Cons.IH [OF Cons.prems] valid_sig True by (simp add: validSigners_Cons Let_def)
    next
      case False
      have un: "set seen \<union> insert ?signer (validSigners env st message sigs) =
                set (seen @ [?signer]) \<union> validSigners env st message sigs" by auto
      show ?thesis
      proof (cases "valid + 1 \<ge> requiredSignatures st")
        case True
        have "card (set (seen @ [?signer])) \<le> card (set (seen @ [?signer]) \<union> validSigners env st message sigs)"
          by (intro card_mono) auto
        moreover have "card (set (seen @ [?signer])) = valid + 1"
          using Cons.prems False by (simp add: distinct_card)
        ultimately show ?thesis
          using valid_sig False True by (simp add: validSigners_Cons Let_def un)
      next
        case notyet: False
        have "distinct (seen @ [?signer])" using Cons.prems False by simp
        moreover have "valid + 1 = length (seen @ [?signer])" using Cons.prems by simp
        moreover have "valid + 1 < requiredSignatures st" using notyet by simp
        ultimately show ?thesis
          using Cons.IH [of "seen @ [?signer]" "valid + 1"] valid_sig False notyet
          by (simp add: validSigners_Cons Let_def un)
      qed
    qed
  qed
qed

lemma sol_anchorRoot_quorum:
  assumes "a_timestamp (anchors st (anchorKey env chainId blockNumber)) = 0"
  shows "(\<exists>st'. sol_anchorRoot env st chainId blockNumber merkleRoot sigs = Inr st') \<longleftrightarrow>
         card (validSigners env st
                (keccak256 env (encodePacked 8 chainId @ encodePacked 8 blockNumber @
                   encodePacked 32 merkleRoot)) sigs) \<ge> requiredSignatures st"
proof (cases "requiredSignatures st = 0")
  case True
  then show ?thesis using assms by (simp add: sol_anchorRoot_def Let_def)
next
  case False
  let ?m = "keccak256 env (encodePacked 8 chainId @ encodePacked 8 blockNumber @
                   encodePacked 32 merkleRoot)"
  have q: "countValid env st ?m sigs [] 0 \<ge> requiredSignatures st \<longleftrightarrow>
        card (validSigners env st ?m sigs) \<ge> requiredSignatures st"
    using countValid_quorum [of "[]" 0 st env ?m sigs] False by simp
  have "card (validSigners env st ?m sigs) \<le> length sigs"
  proof -
    have "validSigners env st ?m sigs \<subseteq> recoverSigner env ?m ` set sigs"
      by (auto simp add: validSigners_def)
    then have "card (validSigners env st ?m sigs) \<le> card (recoverSigner env ?m ` set sigs)"
      by (intro card_mono) auto
    also have "\<dots> \<le> card (set sigs)" by (rule card_image_le) simp
    also have "\<dots> \<le> length sigs" by (rule card_length)
    finally show ?thesis .
  qed
  then show ?thesis
    using assms q by (auto simp add: sol_anchorRoot_def Let_def)
qed


end
